theory Spec2Isabelle
  imports Complex_Main
begin

section \<open>The notebooks as data\<close>

text \<open>
  The repository holds three Jupyter notebooks and no other code: a retrieval-augmented
  generation demo (RAG), a convolutional autoencoder trained on CIFAR-10, and an
  introduction to scikit-learn. Each is a script of library calls, run cell by cell from
  top to bottom. Several properties of the specification are about that script as a
  text: the order of its stages, which call passes which keyword argument, whether any
  statement handles an exception. For these the code cells are kept as abstract syntax,
  one constant per code cell, following Python's own grammar of expressions and
  statements. The functions the notebooks define (\<open>emb_text\<close>, \<open>train\<close>,
  \<open>test_image_reconstruction\<close>, \<open>AutoEncoder.forward\<close>) and the cells whose
  effect a property is about are modelled a second time, as HOL functions, in the
  section on behaviour.
\<close>

subsection \<open>Python expressions and statements\<close>

text \<open>
  Numbers written with a decimal point keep their source text (\<open>CFloat\<close>), so that no
  rounding enters the model. Every list comprehension of the notebooks has one
  \<open>for\<close> clause, every comparison one operator, no call uses \<open>*\<close> or \<open>**\<close>
  arguments, and no function definition has defaults or decorators; the constructors
  below carry exactly that much.
\<close>

datatype const = CStr string | CInt int | CFloat string | CBool bool | CNone

datatype binop = Add | Sub | Mult | Div | FloorDiv | Mod | Pow

datatype unaryop = UNot | USub

datatype cmpop = Eq | NotEq | Lt | LtE | Gt | GtE

datatype expr =
    Name string
  | Const const
  | Attribute expr string
  | Subscript expr expr
  | Slice "expr option" "expr option"
  | Call expr "expr list" "(string \<times> expr) list"
  | BinOp expr binop expr
  | UnaryOp unaryop expr
  | Compare expr cmpop expr
  | IfExp expr expr expr
  | ListE "expr list"
  | TupleE "expr list"
  | DictE "(expr \<times> expr) list"
  | ListComp expr expr expr "expr list"
  | JoinedStr "expr list"
  | FormattedValue expr "string option"

text \<open>
  \<open>ListComp elt target iter ifs\<close> is \<open>[elt for target in iter if ifs]\<close>;
  \<open>Call f args kws\<close> is a call with positional arguments \<open>args\<close> and keyword arguments
  \<open>kws\<close>; \<open>JoinedStr\<close> and \<open>FormattedValue\<close> are the parts of an f-string.

  The statements include the forms Python has for handling failure and for looping on a
  condition (\<open>Try\<close>, \<open>Raise\<close>, \<open>With\<close>, \<open>While\<close>, \<open>Assert\<close>), although no notebook uses
  them: that none occurs is then a statement about the constants below, not a
  limitation of the type. \<open>LineMagic\<close> is an IPython line such as
  \<open>%matplotlib inline\<close>.
\<close>

datatype stmt =
    Import "(string \<times> string option) list"
  | ImportFrom string "(string \<times> string option) list"
  | Assign "expr list" expr
  | AugAssign expr binop expr
  | Expr expr
  | For expr expr "stmt list" "stmt list"
  | While expr "stmt list" "stmt list"
  | If expr "stmt list" "stmt list"
  | FunctionDef string "string list" "stmt list"
  | ClassDef string "expr list" "stmt list"
  | Return "expr option"
  | Break
  | Continue
  | Pass
  | Raise "expr option"
  | Try "stmt list" "(expr option \<times> stmt list) list" "stmt list" "stmt list"
  | With "(expr \<times> expr option) list" "stmt list"
  | Assert expr
  | LineMagic string

text \<open>
  A cell is Python code, or a script handed to another interpreter by a cell magic
  (\<open>%%bash\<close>): its text is kept, it is not Python.
\<close>

datatype cell = CodeCell "stmt list" | ShellCell string string

subsection \<open>The RAG notebook\<close>

text \<open>The notebook "Building a RAG with Hugging Face and Milvus".\<close>

text \<open>Cell 3 of the RAG notebook (lines 54 to 56 of the file):
\<^verbatim>\<open>
  import os

  os.environ["HF_TOKEN"] = ""
\<close>\<close>

definition rag_cell_03 :: "stmt list" where
  "rag_cell_03 =
    [Import [(''os'', None)],
     Assign [Subscript (Attribute (Name ''os'') ''environ'') (Const (CStr ''HF_TOKEN''))]
       (Const (CStr ''''))]"

text \<open>Cell 5 of the RAG notebook (lines 81 to 85 of the file):
\<^verbatim>\<open>
  %%bash

  if [ ! -f "The-AI-Act.pdf" ]; then
      wget -q https://artificialintelligenceact.eu/wp-content/uploads/2021/08/The-AI-Act.pdf
  fi
\<close>\<close>

definition rag_cell_05 :: "string" where
  "rag_cell_05 =
    [CHR 0x0A] @ ''if [ ! -f '' @ [CHR 0x22] @ ''The-AI-Act.pdf'' @ [CHR 0x22] @ '' ]; then'' @
     [CHR 0x0A] @
     ''    wget -q https://artificialintelligenceact.eu/wp-content/uploads/2021/08/The-AI-Act.pdf'' @
     [CHR 0x0A] @ ''fi''"

text \<open>Cell 7 of the RAG notebook (lines 109 to 113 of the file):
\<^verbatim>\<open>
  from langchain_community.document_loaders import PyPDFLoader

  loader = PyPDFLoader("The-AI-Act.pdf")
  docs = loader.load()
  print(len(docs))
\<close>\<close>

definition rag_cell_07 :: "stmt list" where
  "rag_cell_07 =
    [ImportFrom ''langchain_community.document_loaders'' [(''PyPDFLoader'', None)],
     Assign [Name ''loader''] (Call (Name ''PyPDFLoader'') [Const (CStr ''The-AI-Act.pdf'')] []),
     Assign [Name ''docs''] (Call (Attribute (Name ''loader'') ''load'') [] []),
     Expr (Call (Name ''print'') [Call (Name ''len'') [Name ''docs''] []] [])]"

text \<open>Cell 8 of the RAG notebook (lines 124 to 127 of the file):
\<^verbatim>\<open>
  from langchain_text_splitters import RecursiveCharacterTextSplitter

  text_splitter = RecursiveCharacterTextSplitter(chunk_size=1000, chunk_overlap=200)
  chunks = text_splitter.split_documents(docs)
\<close>\<close>

definition rag_cell_08 :: "stmt list" where
  "rag_cell_08 =
    [ImportFrom ''langchain_text_splitters'' [(''RecursiveCharacterTextSplitter'', None)],
     Assign [Name ''text_splitter'']
       (Call (Name ''RecursiveCharacterTextSplitter'') []
         [(''chunk_size'', Const (CInt 1000)), (''chunk_overlap'', Const (CInt 200))]),
     Assign [Name ''chunks'']
       (Call (Attribute (Name ''text_splitter'') ''split_documents'') [Name ''docs''] [])]"

text \<open>Cell 9 of the RAG notebook (lines 138 to 138 of the file):
\<^verbatim>\<open>
  text_lines = [chunk.page_content for chunk in chunks]
\<close>\<close>

definition rag_cell_09 :: "stmt list" where
  "rag_cell_09 =
    [Assign [Name ''text_lines'']
       (ListComp (Attribute (Name ''chunk'') ''page_content'') (Name ''chunk'') (Name ''chunks'')
         [])]"

text \<open>Cell 11 of the RAG notebook (lines 159 to 164 of the file):
\<^verbatim>\<open>
  from sentence_transformers import SentenceTransformer

  embedding_model = SentenceTransformer("BAAI/bge-small-en-v1.5")

  def emb_text(text):
      return embedding_model.encode([text], normalize_embeddings=True).tolist()[0]
\<close>\<close>

definition rag_cell_11 :: "stmt list" where
  "rag_cell_11 =
    [ImportFrom ''sentence_transformers'' [(''SentenceTransformer'', None)],
     Assign [Name ''embedding_model'']
       (Call (Name ''SentenceTransformer'') [Const (CStr ''BAAI/bge-small-en-v1.5'')] []),
     FunctionDef ''emb_text'' [''text'']
       [Return
          (Some
            (Subscript
              (Call
                (Attribute
                  (Call (Attribute (Name ''embedding_model'') ''encode'') [ListE [Name ''text'']]
                    [(''normalize_embeddings'', Const (CBool True))])
                  ''tolist'')
                []
                [])
              (Const (CInt 0))))]]"

text \<open>Cell 13 of the RAG notebook (lines 188 to 191 of the file):
\<^verbatim>\<open>
  test_embedding = emb_text("This is a fish")
  embedding_dim = len(test_embedding)
  print(embedding_dim)
  print(test_embedding[:10])
\<close>\<close>

definition rag_cell_13 :: "stmt list" where
  "rag_cell_13 =
    [Assign [Name ''test_embedding'']
       (Call (Name ''emb_text'') [Const (CStr ''This is a fish'')] []),
     Assign [Name ''embedding_dim''] (Call (Name ''len'') [Name ''test_embedding''] []),
     Expr (Call (Name ''print'') [Name ''embedding_dim''] []),
     Expr
       (Call (Name ''print'')
         [Subscript (Name ''test_embedding'') (Slice None (Some (Const (CInt 10))))]
         [])]"

text \<open>Cell 16 of the RAG notebook (lines 220 to 224 of the file):
\<^verbatim>\<open>
  from pymilvus import MilvusClient

  milvus_client = MilvusClient(uri="./hf_milvus_demo.db")

  collection_name = "rag_collection"
\<close>\<close>

definition rag_cell_16 :: "stmt list" where
  "rag_cell_16 =
    [ImportFrom ''pymilvus'' [(''MilvusClient'', None)],
     Assign [Name ''milvus_client'']
       (Call (Name ''MilvusClient'') [] [(''uri'', Const (CStr ''./hf_milvus_demo.db''))]),
     Assign [Name ''collection_name''] (Const (CStr ''rag_collection''))]"

text \<open>Cell 19 of the RAG notebook (lines 259 to 260 of the file):
\<^verbatim>\<open>
  if milvus_client.has_collection(collection_name):
      milvus_client.drop_collection(collection_name)
\<close>\<close>

definition rag_cell_19 :: "stmt list" where
  "rag_cell_19 =
    [If
       (Call (Attribute (Name ''milvus_client'') ''has_collection'') [Name ''collection_name'']
         [])
       [Expr
          (Call (Attribute (Name ''milvus_client'') ''drop_collection'')
            [Name ''collection_name'']
            [])]
       []]"

text \<open>Cell 21 of the RAG notebook (lines 282 to 287 of the file):
\<^verbatim>\<open>
  milvus_client.create_collection(
      collection_name=collection_name,
      dimension=embedding_dim,
      metric_type="IP",  # Inner product distance
      consistency_level="Strong",  # Strong consistency level
  )
\<close>\<close>

definition rag_cell_21 :: "stmt list" where
  "rag_cell_21 =
    [Expr
       (Call (Attribute (Name ''milvus_client'') ''create_collection'') []
         [(''collection_name'', Name ''collection_name''),
          (''dimension'', Name ''embedding_dim''),
          (''metric_type'', Const (CStr ''IP'')),
          (''consistency_level'', Const (CStr ''Strong''))])]"

text \<open>Cell 23 of the RAG notebook (lines 314 to 322 of the file):
\<^verbatim>\<open>
  from tqdm import tqdm

  data = []

  for i, line in enumerate(tqdm(text_lines, desc="Creating embeddings")):
      data.append({"id": i, "vector": emb_text(line), "text": line})

  insert_res = milvus_client.insert(collection_name=collection_name, data=data)
  insert_res["insert_count"]
\<close>\<close>

definition rag_cell_23 :: "stmt list" where
  "rag_cell_23 =
    [ImportFrom ''tqdm'' [(''tqdm'', None)],
     Assign [Name ''data''] (ListE []),
     For (TupleE [Name ''i'', Name ''line''])
       (Call (Name ''enumerate'')
         [Call (Name ''tqdm'') [Name ''text_lines'']
            [(''desc'', Const (CStr ''Creating embeddings''))]]
         [])
       [Expr
          (Call (Attribute (Name ''data'') ''append'')
            [DictE
               [(Const (CStr ''id''), Name ''i''),
                (Const (CStr ''vector''), Call (Name ''emb_text'') [Name ''line''] []),
                (Const (CStr ''text''), Name ''line'')]]
            [])]
       [],
     Assign [Name ''insert_res'']
       (Call (Attribute (Name ''milvus_client'') ''insert'') []
         [(''collection_name'', Name ''collection_name''), (''data'', Name ''data'')]),
     Expr (Subscript (Name ''insert_res'') (Const (CStr ''insert_count'')))]"

text \<open>Cell 25 of the RAG notebook (lines 346 to 346 of the file):
\<^verbatim>\<open>
  question = "What are forbidden AI applications?"
\<close>\<close>

definition rag_cell_25 :: "stmt list" where
  "rag_cell_25 =
    [Assign [Name ''question''] (Const (CStr ''What are forbidden AI applications?''))]"

text \<open>Cell 27 of the RAG notebook (lines 366 to 374 of the file):
\<^verbatim>\<open>
  search_res = milvus_client.search(
      collection_name=collection_name,
      data=[
          emb_text(question)
      ],  # Use the `emb_text` function to convert the question to an embedding vector
      limit=3,  # Return top 3 results
      search_params={"metric_type": "IP", "params": {}},  # Inner product distance
      output_fields=["text"],  # Return the text field
  )
\<close>\<close>

definition rag_cell_27 :: "stmt list" where
  "rag_cell_27 =
    [Assign [Name ''search_res'']
       (Call (Attribute (Name ''milvus_client'') ''search'') []
         [(''collection_name'', Name ''collection_name''),
          (''data'', ListE [Call (Name ''emb_text'') [Name ''question''] []]),
          (''limit'', Const (CInt 3)),
          (''search_params'',
           DictE
             [(Const (CStr ''metric_type''), Const (CStr ''IP'')),
              (Const (CStr ''params''), DictE [])]),
          (''output_fields'', ListE [Const (CStr ''text'')])])]"

text \<open>Cell 29 of the RAG notebook (lines 398 to 403 of the file):
\<^verbatim>\<open>
  import json

  retrieved_lines_with_distances = [
      (res["entity"]["text"], res["distance"]) for res in search_res[0]
  ]
  print(json.dumps(retrieved_lines_with_distances, indent=4))
\<close>\<close>

definition rag_cell_29 :: "stmt list" where
  "rag_cell_29 =
    [Import [(''json'', None)],
     Assign [Name ''retrieved_lines_with_distances'']
       (ListComp
         (TupleE
           [Subscript (Subscript (Name ''res'') (Const (CStr ''entity'')))
              (Const (CStr ''text'')),
            Subscript (Name ''res'') (Const (CStr ''distance''))])
         (Name ''res'')
         (Subscript (Name ''search_res'') (Const (CInt 0)))
         []),
     Expr
       (Call (Name ''print'')
         [Call (Attribute (Name ''json'') ''dumps'') [Name ''retrieved_lines_with_distances'']
            [(''indent'', Const (CInt 4))]]
         [])]"

text \<open>Cell 31 of the RAG notebook (lines 425 to 427 of the file):
\<^verbatim>\<open>
  context = "\n".join(
      [line_with_distance[0] for line_with_distance in retrieved_lines_with_distances]
  )
\<close>\<close>

definition rag_cell_31 :: "stmt list" where
  "rag_cell_31 =
    [Assign [Name ''context'']
       (Call (Attribute (Const (CStr [CHR 0x0A])) ''join'')
         [ListComp (Subscript (Name ''line_with_distance'') (Const (CInt 0)))
            (Name ''line_with_distance'')
            (Name ''retrieved_lines_with_distances'')
            []]
         [])]"

text \<open>Cell 33 of the RAG notebook (lines 447 to 455 of the file):
\<^verbatim>\<open>
  PROMPT = """
  Use the following pieces of information enclosed in <context> tags to provide an answer to the question enclosed in <question> tags.
  <context>
  {context}
  </context>
  <question>
  {question}
  </question>
  """
\<close>\<close>

definition rag_cell_33 :: "stmt list" where
  "rag_cell_33 =
    [Assign [Name ''PROMPT'']
       (Const
         (CStr
           ([CHR 0x0A] @
            ''Use the following pieces of information enclosed in <context> tags to provide an answer to the question enclosed in <question> tags.'' @
            [CHR 0x0A] @ ''<context>'' @ [CHR 0x0A] @ ''{context}'' @ [CHR 0x0A] @
            ''</context>'' @ [CHR 0x0A] @ ''<question>'' @ [CHR 0x0A] @
            ''{question}'' @ [CHR 0x0A] @ ''</question>'' @ [CHR 0x0A])))]"

text \<open>Cell 35 of the RAG notebook (lines 481 to 485 of the file):
\<^verbatim>\<open>
  from huggingface_hub import InferenceClient

  repo_id = "mistralai/Mixtral-8x7B-Instruct-v0.1"

  llm_client = InferenceClient(model=repo_id, timeout=120)
\<close>\<close>

definition rag_cell_35 :: "stmt list" where
  "rag_cell_35 =
    [ImportFrom ''huggingface_hub'' [(''InferenceClient'', None)],
     Assign [Name ''repo_id''] (Const (CStr ''mistralai/Mixtral-8x7B-Instruct-v0.1'')),
     Assign [Name ''llm_client'']
       (Call (Name ''InferenceClient'') []
         [(''model'', Name ''repo_id''), (''timeout'', Const (CInt 120))])]"

text \<open>Cell 37 of the RAG notebook (lines 515 to 515 of the file):
\<^verbatim>\<open>
  prompt = PROMPT.format(context=context, question=question)
\<close>\<close>

definition rag_cell_37 :: "stmt list" where
  "rag_cell_37 =
    [Assign [Name ''prompt'']
       (Call (Attribute (Name ''PROMPT'') ''format'') []
         [(''context'', Name ''context''), (''question'', Name ''question'')])]"

text \<open>Cell 38 of the RAG notebook (lines 531 to 531 of the file):
\<^verbatim>\<open>
  prompt
\<close>\<close>

definition rag_cell_38 :: "stmt list" where
  "rag_cell_38 =
    [Expr (Name ''prompt'')]"

text \<open>Cell 39 of the RAG notebook (lines 553 to 557 of the file):
\<^verbatim>\<open>
  answer = llm_client.text_generation(
      prompt,
      max_new_tokens=1000,
  ).strip()
  print(answer)
\<close>\<close>

definition rag_cell_39 :: "stmt list" where
  "rag_cell_39 =
    [Assign [Name ''answer'']
       (Call
         (Attribute
           (Call (Attribute (Name ''llm_client'') ''text_generation'') [Name ''prompt'']
             [(''max_new_tokens'', Const (CInt 1000))])
           ''strip'')
         []
         []),
     Expr (Call (Name ''print'') [Name ''answer''] [])]"

definition rag_notebook :: "cell list" where
  "rag_notebook =
    [CodeCell rag_cell_03,
     ShellCell ''bash'' rag_cell_05,
     CodeCell rag_cell_07,
     CodeCell rag_cell_08,
     CodeCell rag_cell_09,
     CodeCell rag_cell_11,
     CodeCell rag_cell_13,
     CodeCell rag_cell_16,
     CodeCell rag_cell_19,
     CodeCell rag_cell_21,
     CodeCell rag_cell_23,
     CodeCell rag_cell_25,
     CodeCell rag_cell_27,
     CodeCell rag_cell_29,
     CodeCell rag_cell_31,
     CodeCell rag_cell_33,
     CodeCell rag_cell_35,
     CodeCell rag_cell_37,
     CodeCell rag_cell_38,
     CodeCell rag_cell_39]"

subsection \<open>The autoencoder notebook\<close>

text \<open>The file \<open>Part_2_Autoencoders_PyTorch.ipynb\<close>.\<close>

text \<open>Cell 2 of the autoencoder notebook (lines 42 to 59 of the file):
\<^verbatim>\<open>
  # Loading torch
  import torch
  import torch.nn as nn
  import torch.nn.functional as F
  import torch.optim as optim

  # Loading torchvision
  import torchvision.transforms as transforms
  from torchvision.utils import save_image
  import torchvision.datasets as dsets
  from torchsummary import summary

  # Loading other packages
  import os
  import time
  import numpy as np
  import matplotlib.pyplot as plt
  %matplotlib inline
\<close>\<close>

definition autoencoder_cell_02 :: "stmt list" where
  "autoencoder_cell_02 =
    [Import [(''torch'', None)],
     Import [(''torch.nn'', Some ''nn'')],
     Import [(''torch.nn.functional'', Some ''F'')],
     Import [(''torch.optim'', Some ''optim'')],
     Import [(''torchvision.transforms'', Some ''transforms'')],
     ImportFrom ''torchvision.utils'' [(''save_image'', None)],
     Import [(''torchvision.datasets'', Some ''dsets'')],
     ImportFrom ''torchsummary'' [(''summary'', None)],
     Import [(''os'', None)],
     Import [(''time'', None)],
     Import [(''numpy'', Some ''np'')],
     Import [(''matplotlib.pyplot'', Some ''plt'')],
     LineMagic ''matplotlib inline'']"

text \<open>Cell 4 of the autoencoder notebook (lines 79 to 81 of the file):
\<^verbatim>\<open>
  NUM_EPOCHS = 10
  LEANRING_RATE = 0.001
  BATCH_SIZE = 128
\<close>\<close>

definition autoencoder_cell_04 :: "stmt list" where
  "autoencoder_cell_04 =
    [Assign [Name ''NUM_EPOCHS''] (Const (CInt 10)),
     Assign [Name ''LEANRING_RATE''] (Const (CFloat ''0.001'')),
     Assign [Name ''BATCH_SIZE''] (Const (CInt 128))]"

text \<open>Cell 6 of the autoencoder notebook (lines 101 to 104 of the file):
\<^verbatim>\<open>
  transforms = transforms.Compose([
      transforms.ToTensor(),
      transforms.Normalize(mean=(0.5, 0.5, 0.5), std=(0.5, 0.5, 0.5))
  ])
\<close>\<close>

definition autoencoder_cell_06 :: "stmt list" where
  "autoencoder_cell_06 =
    [Assign [Name ''transforms'']
       (Call (Attribute (Name ''transforms'') ''Compose'')
         [ListE
            [Call (Attribute (Name ''transforms'') ''ToTensor'') [] [],
             Call (Attribute (Name ''transforms'') ''Normalize'') []
               [(''mean'',
                 TupleE [Const (CFloat ''0.5''), Const (CFloat ''0.5''), Const (CFloat ''0.5'')]),
                (''std'',
                 TupleE
                   [Const (CFloat ''0.5''), Const (CFloat ''0.5''), Const (CFloat ''0.5'')])]]]
         [])]"

text \<open>Cell 7 of the autoencoder notebook (lines 119 to 125 of the file):
\<^verbatim>\<open>
  # Download CIFAR10 dataset
  trainset = dsets.CIFAR10(root='./data_cifar10', train=True, download=True, transform=transforms)
  testset = dsets.CIFAR10(root='./data_cifar10', train=False, download=True, transform=transforms)

  # Data loader
  trainLoader = torch.utils.data.DataLoader(trainset, batch_size=BATCH_SIZE, shuffle=True, num_workers=2)
  testLoader = torch.utils.data.DataLoader(testset, batch_size=BATCH_SIZE, shuffle=False, num_workers=2)
\<close>\<close>

definition autoencoder_cell_07 :: "stmt list" where
  "autoencoder_cell_07 =
    [Assign [Name ''trainset'']
       (Call (Attribute (Name ''dsets'') ''CIFAR10'') []
         [(''root'', Const (CStr ''./data_cifar10'')),
          (''train'', Const (CBool True)),
          (''download'', Const (CBool True)),
          (''transform'', Name ''transforms'')]),
     Assign [Name ''testset'']
       (Call (Attribute (Name ''dsets'') ''CIFAR10'') []
         [(''root'', Const (CStr ''./data_cifar10'')),
          (''train'', Const (CBool False)),
          (''download'', Const (CBool True)),
          (''transform'', Name ''transforms'')]),
     Assign [Name ''trainLoader'']
       (Call
         (Attribute (Attribute (Attribute (Name ''torch'') ''utils'') ''data'') ''DataLoader'')
         [Name ''trainset'']
         [(''batch_size'', Name ''BATCH_SIZE''),
          (''shuffle'', Const (CBool True)),
          (''num_workers'', Const (CInt 2))]),
     Assign [Name ''testLoader'']
       (Call
         (Attribute (Attribute (Attribute (Name ''torch'') ''utils'') ''data'') ''DataLoader'')
         [Name ''testset'']
         [(''batch_size'', Name ''BATCH_SIZE''),
          (''shuffle'', Const (CBool False)),
          (''num_workers'', Const (CInt 2))])]"

text \<open>Cell 9 of the autoencoder notebook (lines 145 to 156 of the file):
\<^verbatim>\<open>
  device = torch.device("cuda:0" if torch.cuda.is_available() else "cpu")

  # Define the
  def make_dir():
      image_dir = './image_cifar10/'
      if not os.path.exists(image_dir):
          os.mkdir(image_dir)

  # save decoded images
  def save_decoded_image(img, name):
      img = img.view(img.size(0), 3, 32, 32)
      save_image(img, './image_cifar10/' + name + '.png')
\<close>\<close>

definition autoencoder_cell_09 :: "stmt list" where
  "autoencoder_cell_09 =
    [Assign [Name ''device'']
       (Call (Attribute (Name ''torch'') ''device'')
         [IfExp (Call (Attribute (Attribute (Name ''torch'') ''cuda'') ''is_available'') [] [])
            (Const (CStr ''cuda:0''))
            (Const (CStr ''cpu''))]
         []),
     FunctionDef ''make_dir'' []
       [Assign [Name ''image_dir''] (Const (CStr ''./image_cifar10/'')),
        If
          (UnaryOp UNot
            (Call (Attribute (Attribute (Name ''os'') ''path'') ''exists'') [Name ''image_dir'']
              []))
          [Expr (Call (Attribute (Name ''os'') ''mkdir'') [Name ''image_dir''] [])]
          []],
     FunctionDef ''save_decoded_image'' [''img'', ''name'']
       [Assign [Name ''img'']
          (Call (Attribute (Name ''img'') ''view'')
            [Call (Attribute (Name ''img'') ''size'') [Const (CInt 0)] [],
             Const (CInt 3),
             Const (CInt 32),
             Const (CInt 32)]
            []),
        Expr
          (Call (Name ''save_image'')
            [Name ''img'',
             BinOp (BinOp (Const (CStr ''./image_cifar10/'')) Add (Name ''name'')) Add
               (Const (CStr ''.png''))]
            [])]]"

text \<open>Cell 12 of the autoencoder notebook (lines 193 to 214 of the file):
\<^verbatim>\<open>
  class AutoEncoder(nn.Module):
      def __init__(self):
          super(AutoEncoder, self).__init__()

          # encoder
          self.enc1 = nn.Conv2d(3, 8, 3) # First Ecnoder Layer
          self.enc2 = nn.Conv2d(8, 4, 3) # Second Encoder Layer

          # decoder
          self.dec1 = nn.ConvTranspose2d(4, 8, 3) # First Decoder Layer
          self.dec2 = nn.ConvTranspose2d(8, 3, 3) # Second Decoder Layer

      # Rectified Linear Unit
      def forward(self, x):
          x = F.relu(self.enc1(x))
          x = F.relu(self.enc2(x))
          x = F.relu(self.dec1(x))
          x = F.relu(self.dec2(x))
          return x

  model = AutoEncoder().to(device)
  print(model)
\<close>\<close>

definition autoencoder_cell_12 :: "stmt list" where
  "autoencoder_cell_12 =
    [ClassDef ''AutoEncoder'' [Attribute (Name ''nn'') ''Module'']
       [FunctionDef ''__init__'' [''self'']
          [Expr
             (Call
               (Attribute (Call (Name ''super'') [Name ''AutoEncoder'', Name ''self''] [])
                 ''__init__'')
               []
               []),
           Assign [Attribute (Name ''self'') ''enc1'']
             (Call (Attribute (Name ''nn'') ''Conv2d'')
               [Const (CInt 3), Const (CInt 8), Const (CInt 3)]
               []),
           Assign [Attribute (Name ''self'') ''enc2'']
             (Call (Attribute (Name ''nn'') ''Conv2d'')
               [Const (CInt 8), Const (CInt 4), Const (CInt 3)]
               []),
           Assign [Attribute (Name ''self'') ''dec1'']
             (Call (Attribute (Name ''nn'') ''ConvTranspose2d'')
               [Const (CInt 4), Const (CInt 8), Const (CInt 3)]
               []),
           Assign [Attribute (Name ''self'') ''dec2'']
             (Call (Attribute (Name ''nn'') ''ConvTranspose2d'')
               [Const (CInt 8), Const (CInt 3), Const (CInt 3)]
               [])],
        FunctionDef ''forward'' [''self'', ''x'']
          [Assign [Name ''x'']
             (Call (Attribute (Name ''F'') ''relu'')
               [Call (Attribute (Name ''self'') ''enc1'') [Name ''x''] []]
               []),
           Assign [Name ''x'']
             (Call (Attribute (Name ''F'') ''relu'')
               [Call (Attribute (Name ''self'') ''enc2'') [Name ''x''] []]
               []),
           Assign [Name ''x'']
             (Call (Attribute (Name ''F'') ''relu'')
               [Call (Attribute (Name ''self'') ''dec1'') [Name ''x''] []]
               []),
           Assign [Name ''x'']
             (Call (Attribute (Name ''F'') ''relu'')
               [Call (Attribute (Name ''self'') ''dec2'') [Name ''x''] []]
               []),
           Return (Some (Name ''x''))]],
     Assign [Name ''model'']
       (Call (Attribute (Call (Name ''AutoEncoder'') [] []) ''to'') [Name ''device''] []),
     Expr (Call (Name ''print'') [Name ''model''] [])]"

text \<open>Cell 14 of the autoencoder notebook (lines 234 to 235 of the file):
\<^verbatim>\<open>
  criterion = nn.MSELoss()
  optimizer = optim.Adam(model.parameters(), lr= LEANRING_RATE)
\<close>\<close>

definition autoencoder_cell_14 :: "stmt list" where
  "autoencoder_cell_14 =
    [Assign [Name ''criterion''] (Call (Attribute (Name ''nn'') ''MSELoss'') [] []),
     Assign [Name ''optimizer'']
       (Call (Attribute (Name ''optim'') ''Adam'')
         [Call (Attribute (Name ''model'') ''parameters'') [] []]
         [(''lr'', Name ''LEANRING_RATE'')])]"

text \<open>Cell 16 of the autoencoder notebook (lines 255 to 288 of the file):
\<^verbatim>\<open>
  def train(net, trainloader, NUM_EPOCHS):
      train_loss = []
      for epoch in range(NUM_EPOCHS):
          start = time.time()
          running_loss = 0.0
          for data in trainloader:
              img, _ = data # no need for the labels
              img = img.to(device)
              optimizer.zero_grad()
              outputs = net(img)
              loss = criterion(outputs, img)
              loss.backward()
              optimizer.step()
              running_loss += loss.item()

          loss = running_loss / len(trainloader)
          train_loss.append(loss)
          end = time.time()
          total_time = end - start
          print('- Epoch {} of {}, ETA: {:.2f} Train Loss: {:.3f}'.format(
              epoch+1, NUM_EPOCHS, total_time, loss))

          if epoch % 5 == 0:
              save_decoded_image(img.cpu().data, name='original{}'.format(epoch))
              save_decoded_image(outputs.cpu().data, name='decoded{}'.format(epoch))
      return train_loss
  def test_image_reconstruction(net, testloader):
       for batch in testloader:
          img, _ = batch
          img = img.to(device)
          outputs = net(img)
          outputs = outputs.view(outputs.size(0), 3, 32, 32).cpu().data
          save_image(outputs, 'conv_cifar10_reconstruction.png')
          break
\<close>\<close>

definition autoencoder_cell_16 :: "stmt list" where
  "autoencoder_cell_16 =
    [FunctionDef ''train'' [''net'', ''trainloader'', ''NUM_EPOCHS'']
       [Assign [Name ''train_loss''] (ListE []),
        For (Name ''epoch'') (Call (Name ''range'') [Name ''NUM_EPOCHS''] [])
          [Assign [Name ''start''] (Call (Attribute (Name ''time'') ''time'') [] []),
           Assign [Name ''running_loss''] (Const (CFloat ''0.0'')),
           For (Name ''data'') (Name ''trainloader'')
             [Assign [TupleE [Name ''img'', Name ''_'']] (Name ''data''),
              Assign [Name ''img''] (Call (Attribute (Name ''img'') ''to'') [Name ''device''] []),
              Expr (Call (Attribute (Name ''optimizer'') ''zero_grad'') [] []),
              Assign [Name ''outputs''] (Call (Name ''net'') [Name ''img''] []),
              Assign [Name ''loss'']
                (Call (Name ''criterion'') [Name ''outputs'', Name ''img''] []),
              Expr (Call (Attribute (Name ''loss'') ''backward'') [] []),
              Expr (Call (Attribute (Name ''optimizer'') ''step'') [] []),
              AugAssign (Name ''running_loss'') Add
                (Call (Attribute (Name ''loss'') ''item'') [] [])]
             [],
           Assign [Name ''loss'']
             (BinOp (Name ''running_loss'') Div (Call (Name ''len'') [Name ''trainloader''] [])),
           Expr (Call (Attribute (Name ''train_loss'') ''append'') [Name ''loss''] []),
           Assign [Name ''end''] (Call (Attribute (Name ''time'') ''time'') [] []),
           Assign [Name ''total_time''] (BinOp (Name ''end'') Sub (Name ''start'')),
           Expr
             (Call (Name ''print'')
               [Call
                  (Attribute (Const (CStr ''- Epoch {} of {}, ETA: {:.2f} Train Loss: {:.3f}''))
                    ''format'')
                  [BinOp (Name ''epoch'') Add (Const (CInt 1)),
                   Name ''NUM_EPOCHS'',
                   Name ''total_time'',
                   Name ''loss'']
                  []]
               []),
           If (Compare (BinOp (Name ''epoch'') Mod (Const (CInt 5))) Eq (Const (CInt 0)))
             [Expr
                (Call (Name ''save_decoded_image'')
                  [Attribute (Call (Attribute (Name ''img'') ''cpu'') [] []) ''data'']
                  [(''name'',
                    Call (Attribute (Const (CStr ''original{}'')) ''format'') [Name ''epoch'']
                      [])]),
              Expr
                (Call (Name ''save_decoded_image'')
                  [Attribute (Call (Attribute (Name ''outputs'') ''cpu'') [] []) ''data'']
                  [(''name'',
                    Call (Attribute (Const (CStr ''decoded{}'')) ''format'') [Name ''epoch'']
                      [])])]
             []]
          [],
        Return (Some (Name ''train_loss''))],
     FunctionDef ''test_image_reconstruction'' [''net'', ''testloader'']
       [For (Name ''batch'') (Name ''testloader'')
          [Assign [TupleE [Name ''img'', Name ''_'']] (Name ''batch''),
           Assign [Name ''img''] (Call (Attribute (Name ''img'') ''to'') [Name ''device''] []),
           Assign [Name ''outputs''] (Call (Name ''net'') [Name ''img''] []),
           Assign [Name ''outputs'']
             (Attribute
               (Call
                 (Attribute
                   (Call (Attribute (Name ''outputs'') ''view'')
                     [Call (Attribute (Name ''outputs'') ''size'') [Const (CInt 0)] [],
                      Const (CInt 3),
                      Const (CInt 32),
                      Const (CInt 32)]
                     [])
                   ''cpu'')
                 []
                 [])
               ''data''),
           Expr
             (Call (Name ''save_image'')
               [Name ''outputs'', Const (CStr ''conv_cifar10_reconstruction.png'')]
               []),
           Break]
          []]]"

text \<open>Cell 18 of the autoencoder notebook (lines 313 to 322 of the file):
\<^verbatim>\<open>
  model.to(device)
  make_dir()
  train_loss = train(model, trainLoader, NUM_EPOCHS)
  plt.figure()
  plt.plot(train_loss)
  plt.title('Train Loss')
  plt.xlabel('Epochs')
  plt.ylabel('Loss')
  plt.savefig('conv_ae_cifar10_loss.png')
  test_image_reconstruction(model, testLoader)
\<close>\<close>

definition autoencoder_cell_18 :: "stmt list" where
  "autoencoder_cell_18 =
    [Expr (Call (Attribute (Name ''model'') ''to'') [Name ''device''] []),
     Expr (Call (Name ''make_dir'') [] []),
     Assign [Name ''train_loss'']
       (Call (Name ''train'') [Name ''model'', Name ''trainLoader'', Name ''NUM_EPOCHS''] []),
     Expr (Call (Attribute (Name ''plt'') ''figure'') [] []),
     Expr (Call (Attribute (Name ''plt'') ''plot'') [Name ''train_loss''] []),
     Expr (Call (Attribute (Name ''plt'') ''title'') [Const (CStr ''Train Loss'')] []),
     Expr (Call (Attribute (Name ''plt'') ''xlabel'') [Const (CStr ''Epochs'')] []),
     Expr (Call (Attribute (Name ''plt'') ''ylabel'') [Const (CStr ''Loss'')] []),
     Expr
       (Call (Attribute (Name ''plt'') ''savefig'') [Const (CStr ''conv_ae_cifar10_loss.png'')]
         []),
     Expr (Call (Name ''test_image_reconstruction'') [Name ''model'', Name ''testLoader''] [])]"

text \<open>Cell 19 of the autoencoder notebook (lines 338 to 342 of the file):
\<^verbatim>\<open>
  import matplotlib.image as mpimg
  plt.figure(figsize=(10,20))
  img = mpimg.imread("conv_cifar10_reconstruction.png")
  plt.imshow(img)
  plt.show()
\<close>\<close>

definition autoencoder_cell_19 :: "stmt list" where
  "autoencoder_cell_19 =
    [Import [(''matplotlib.image'', Some ''mpimg'')],
     Expr
       (Call (Attribute (Name ''plt'') ''figure'') []
         [(''figsize'', TupleE [Const (CInt 10), Const (CInt 20)])]),
     Assign [Name ''img'']
       (Call (Attribute (Name ''mpimg'') ''imread'')
         [Const (CStr ''conv_cifar10_reconstruction.png'')]
         []),
     Expr (Call (Attribute (Name ''plt'') ''imshow'') [Name ''img''] []),
     Expr (Call (Attribute (Name ''plt'') ''show'') [] [])]"

definition autoencoder_notebook :: "cell list" where
  "autoencoder_notebook =
    [CodeCell autoencoder_cell_02,
     CodeCell autoencoder_cell_04,
     CodeCell autoencoder_cell_06,
     CodeCell autoencoder_cell_07,
     CodeCell autoencoder_cell_09,
     CodeCell autoencoder_cell_12,
     CodeCell autoencoder_cell_14,
     CodeCell autoencoder_cell_16,
     CodeCell autoencoder_cell_18,
     CodeCell autoencoder_cell_19]"

subsection \<open>The scikit-learn notebook\<close>

text \<open>The file \<open>Part_1_introduction_sklearn.ipynb\<close>.\<close>

text \<open>Cell 5 of the scikit-learn notebook (lines 88 to 95 of the file):
\<^verbatim>\<open>
  # Standard imports
  # %matplotlib inline # No longer required in newer versions of Jupyter (2022+)
  import matplotlib.pyplot as plt
  import numpy as np
  import pandas as pd

  import sklearn
  print(f"Using Scikit-Learn version: {sklearn.__version__} (materials in this notebook require this version or newer).")
\<close>\<close>

definition sklearn_cell_05 :: "stmt list" where
  "sklearn_cell_05 =
    [Import [(''matplotlib.pyplot'', Some ''plt'')],
     Import [(''numpy'', Some ''np'')],
     Import [(''pandas'', Some ''pd'')],
     Import [(''sklearn'', None)],
     Expr
       (Call (Name ''print'')
         [JoinedStr
            [Const (CStr ''Using Scikit-Learn version: ''),
             FormattedValue (Attribute (Name ''sklearn'') ''__version__'') None,
             Const (CStr '' (materials in this notebook require this version or newer).'')]]
         [])]"

text \<open>Cell 8 of the scikit-learn notebook (lines 142 to 145 of the file):
\<^verbatim>\<open>
  import pandas as pd

  heart_disease = pd.read_csv("https://raw.githubusercontent.com/mrdbourke/zero-to-mastery-ml/master/data/heart-disease.csv") # load data directly from URL (requires raw form on GitHub, source: https://github.com/mrdbourke/zero-to-mastery-ml/blob/master/data/heart-disease.csv)
  heart_disease.head()
\<close>\<close>

definition sklearn_cell_08 :: "stmt list" where
  "sklearn_cell_08 =
    [Import [(''pandas'', Some ''pd'')],
     Assign [Name ''heart_disease'']
       (Call (Attribute (Name ''pd'') ''read_csv'')
         [Const
            (CStr
              ''https://raw.githubusercontent.com/mrdbourke/zero-to-mastery-ml/master/data/heart-disease.csv'')]
         []),
     Expr (Call (Attribute (Name ''heart_disease'') ''head'') [] [])]"

text \<open>Cell 10 of the scikit-learn notebook (lines 167 to 174 of the file):
\<^verbatim>\<open>
  # Create X (all the feature columns)
  X = heart_disease.drop("target", axis=1)

  # Create y (the target column)
  y = heart_disease["target"]

  # Check the head of the features DataFrame
  X.head()
\<close>\<close>

definition sklearn_cell_10 :: "stmt list" where
  "sklearn_cell_10 =
    [Assign [Name ''X'']
       (Call (Attribute (Name ''heart_disease'') ''drop'') [Const (CStr ''target'')]
         [(''axis'', Const (CInt 1))]),
     Assign [Name ''y''] (Subscript (Name ''heart_disease'') (Const (CStr ''target''))),
     Expr (Call (Attribute (Name ''X'') ''head'') [] [])]"

text \<open>Cell 11 of the scikit-learn notebook (lines 183 to 184 of the file):
\<^verbatim>\<open>
  # Check the head and the value counts of the labels
  y.head(), y.value_counts()
\<close>\<close>

definition sklearn_cell_11 :: "stmt list" where
  "sklearn_cell_11 =
    [Expr
       (TupleE
         [Call (Attribute (Name ''y'') ''head'') [] [],
          Call (Attribute (Name ''y'') ''value_counts'') [] []])]"

text \<open>Cell 13 of the scikit-learn notebook (lines 208 to 216 of the file):
\<^verbatim>\<open>
  # Split the data into training and test sets
  from sklearn.model_selection import train_test_split

  # np.random.seed(42)
  X_train, X_test, y_train, y_test = train_test_split(X,
                                                      y,
                                                      test_size=0.25) # by default train_test_split uses 25% of the data for the test set

  X_train.shape, X_test.shape, y_train.shape, y_test.shape
\<close>\<close>

definition sklearn_cell_13 :: "stmt list" where
  "sklearn_cell_13 =
    [ImportFrom ''sklearn.model_selection'' [(''train_test_split'', None)],
     Assign [TupleE [Name ''X_train'', Name ''X_test'', Name ''y_train'', Name ''y_test'']]
       (Call (Name ''train_test_split'') [Name ''X'', Name ''y'']
         [(''test_size'', Const (CFloat ''0.25''))]),
     Expr
       (TupleE
         [Attribute (Name ''X_train'') ''shape'',
          Attribute (Name ''X_test'') ''shape'',
          Attribute (Name ''y_train'') ''shape'',
          Attribute (Name ''y_test'') ''shape''])]"

text \<open>Cell 15 of the scikit-learn notebook (lines 236 to 239 of the file):
\<^verbatim>\<open>
  # Since we're working on a classification problem, we'll start with a RandomForestClassifier
  from sklearn.ensemble import RandomForestClassifier

  clf = RandomForestClassifier()
\<close>\<close>

definition sklearn_cell_15 :: "stmt list" where
  "sklearn_cell_15 =
    [ImportFrom ''sklearn.ensemble'' [(''RandomForestClassifier'', None)],
     Assign [Name ''clf''] (Call (Name ''RandomForestClassifier'') [] [])]"

text \<open>Cell 17 of the scikit-learn notebook (lines 255 to 256 of the file):
\<^verbatim>\<open>
  # View the current hyperparameters
  clf.get_params()
\<close>\<close>

definition sklearn_cell_17 :: "stmt list" where
  "sklearn_cell_17 =
    [Expr (Call (Attribute (Name ''clf'') ''get_params'') [] [])]"

text \<open>Cell 20 of the scikit-learn notebook (lines 289 to 289 of the file):
\<^verbatim>\<open>
  clf.fit(X=X_train, y=y_train)
\<close>\<close>

definition sklearn_cell_20 :: "stmt list" where
  "sklearn_cell_20 =
    [Expr
       (Call (Attribute (Name ''clf'') ''fit'') []
         [(''X'', Name ''X_train''), (''y'', Name ''y_train'')])]"

text \<open>Cell 22 of the scikit-learn notebook (lines 313 to 314 of the file):
\<^verbatim>\<open>
  # In order to predict a label, data has to be in the same shape as X_train
  X_test.head()
\<close>\<close>

definition sklearn_cell_22 :: "stmt list" where
  "sklearn_cell_22 =
    [Expr (Call (Attribute (Name ''X_test'') ''head'') [] [])]"

text \<open>Cell 23 of the scikit-learn notebook (lines 323 to 324 of the file):
\<^verbatim>\<open>
  # Use the model to make a prediction on the test data (further evaluation)
  y_preds = clf.predict(X=X_test)
\<close>\<close>

definition sklearn_cell_23 :: "stmt list" where
  "sklearn_cell_23 =
    [Assign [Name ''y_preds'']
       (Call (Attribute (Name ''clf'') ''predict'') [] [(''X'', Name ''X_test'')])]"

text \<open>Cell 24 of the scikit-learn notebook (lines 333 to 333 of the file):
\<^verbatim>\<open>
  y_preds
\<close>\<close>

definition sklearn_cell_24 :: "stmt list" where
  "sklearn_cell_24 =
    [Expr (Name ''y_preds'')]"

text \<open>Cell 26 of the scikit-learn notebook (lines 355 to 357 of the file):
\<^verbatim>\<open>
  # Evaluate the model on the training set
  train_acc = clf.score(X=X_train, y=y_train)
  print(f"The model's accuracy on the training dataset is: {train_acc*100}%")
\<close>\<close>

definition sklearn_cell_26 :: "stmt list" where
  "sklearn_cell_26 =
    [Assign [Name ''train_acc'']
       (Call (Attribute (Name ''clf'') ''score'') []
         [(''X'', Name ''X_train''), (''y'', Name ''y_train'')]),
     Expr
       (Call (Name ''print'')
         [JoinedStr
            [Const
               (CStr (''The model'' @ [CHR 0x27] @ ''s accuracy on the training dataset is: '')),
             FormattedValue (BinOp (Name ''train_acc'') Mult (Const (CInt 100))) None,
             Const (CStr ''%'')]]
         [])]"

text \<open>Cell 28 of the scikit-learn notebook (lines 373 to 375 of the file):
\<^verbatim>\<open>
  # Evaluate the model on the test set
  test_acc = clf.score(X=X_test, y=y_test)
  print(f"The model's accuracy on the testing dataset is: {test_acc*100:.2f}%")
\<close>\<close>

definition sklearn_cell_28 :: "stmt list" where
  "sklearn_cell_28 =
    [Assign [Name ''test_acc'']
       (Call (Attribute (Name ''clf'') ''score'') []
         [(''X'', Name ''X_test''), (''y'', Name ''y_test'')]),
     Expr
       (Call (Name ''print'')
         [JoinedStr
            [Const
               (CStr (''The model'' @ [CHR 0x27] @ ''s accuracy on the testing dataset is: '')),
             FormattedValue (BinOp (Name ''test_acc'') Mult (Const (CInt 100))) (Some ''.2f''),
             Const (CStr ''%'')]]
         [])]"

text \<open>Cell 30 of the scikit-learn notebook (lines 402 to 405 of the file):
\<^verbatim>\<open>
  from sklearn.metrics import classification_report, confusion_matrix, accuracy_score

  # Create a classification report
  print(classification_report(y_test, y_preds))
\<close>\<close>

definition sklearn_cell_30 :: "stmt list" where
  "sklearn_cell_30 =
    [ImportFrom ''sklearn.metrics''
       [(''classification_report'', None),
        (''confusion_matrix'', None),
        (''accuracy_score'', None)],
     Expr
       (Call (Name ''print'')
         [Call (Name ''classification_report'') [Name ''y_test'', Name ''y_preds''] []]
         [])]"

text \<open>Cell 31 of the scikit-learn notebook (lines 414 to 416 of the file):
\<^verbatim>\<open>
  # Create a confusion matrix
  conf_mat = confusion_matrix(y_test, y_preds)
  conf_mat
\<close>\<close>

definition sklearn_cell_31 :: "stmt list" where
  "sklearn_cell_31 =
    [Assign [Name ''conf_mat'']
       (Call (Name ''confusion_matrix'') [Name ''y_test'', Name ''y_preds''] []),
     Expr (Name ''conf_mat'')]"

text \<open>Cell 32 of the scikit-learn notebook (lines 425 to 426 of the file):
\<^verbatim>\<open>
  # Compute the accuracy score (same as the score() method for classifiers)
  accuracy_score(y_test, y_preds)
\<close>\<close>

definition sklearn_cell_32 :: "stmt list" where
  "sklearn_cell_32 =
    [Expr (Call (Name ''accuracy_score'') [Name ''y_test'', Name ''y_preds''] [])]"

text \<open>Cell 34 of the scikit-learn notebook (lines 456 to 462 of the file):
\<^verbatim>\<open>
  # Try different numbers of estimators (trees)... (no cross-validation)
  np.random.seed(42)
  for i in range(100, 200, 10):
      print(f"Trying model with {i} estimators...")
      model = RandomForestClassifier(n_estimators=i).fit(X_train, y_train)
      print(f"Model accuracy on test set: {model.score(X_test, y_test) * 100:.2f}%")
      print("")
\<close>\<close>

definition sklearn_cell_34 :: "stmt list" where
  "sklearn_cell_34 =
    [Expr (Call (Attribute (Attribute (Name ''np'') ''random'') ''seed'') [Const (CInt 42)] []),
     For (Name ''i'')
       (Call (Name ''range'') [Const (CInt 100), Const (CInt 200), Const (CInt 10)] [])
       [Expr
          (Call (Name ''print'')
            [JoinedStr
               [Const (CStr ''Trying model with ''),
                FormattedValue (Name ''i'') None,
                Const (CStr '' estimators...'')]]
            []),
        Assign [Name ''model'']
          (Call
            (Attribute
              (Call (Name ''RandomForestClassifier'') [] [(''n_estimators'', Name ''i'')])
              ''fit'')
            [Name ''X_train'', Name ''y_train'']
            []),
        Expr
          (Call (Name ''print'')
            [JoinedStr
               [Const (CStr ''Model accuracy on test set: ''),
                FormattedValue
                  (BinOp
                    (Call (Attribute (Name ''model'') ''score'')
                      [Name ''X_test'', Name ''y_test'']
                      [])
                    Mult
                    (Const (CInt 100)))
                  (Some ''.2f''),
                Const (CStr ''%'')]]
            []),
        Expr (Call (Name ''print'') [Const (CStr '''')] [])]
       []]"

text \<open>Cell 36 of the scikit-learn notebook (lines 484 to 500 of the file):
\<^verbatim>\<open>
  from sklearn.model_selection import cross_val_score

  # With cross-validation
  np.random.seed(42)
  for i in range(100, 200, 10):
      print(f"Trying model with {i} estimators...")
      model = RandomForestClassifier(n_estimators=i).fit(X_train, y_train)

      # Measure the model score on a single train/test split
      model_score = model.score(X_test, y_test)
      print(f"Model accuracy on single test set split: {model_score * 100:.2f}%")

      # Measure the mean cross-validation score across 5 different train and test splits
      cross_val_mean = np.mean(cross_val_score(model, X, y, cv=5))
      print(f"5-fold cross-validation score: {cross_val_mean * 100:.2f}%")

      print("")
\<close>\<close>

definition sklearn_cell_36 :: "stmt list" where
  "sklearn_cell_36 =
    [ImportFrom ''sklearn.model_selection'' [(''cross_val_score'', None)],
     Expr (Call (Attribute (Attribute (Name ''np'') ''random'') ''seed'') [Const (CInt 42)] []),
     For (Name ''i'')
       (Call (Name ''range'') [Const (CInt 100), Const (CInt 200), Const (CInt 10)] [])
       [Expr
          (Call (Name ''print'')
            [JoinedStr
               [Const (CStr ''Trying model with ''),
                FormattedValue (Name ''i'') None,
                Const (CStr '' estimators...'')]]
            []),
        Assign [Name ''model'']
          (Call
            (Attribute
              (Call (Name ''RandomForestClassifier'') [] [(''n_estimators'', Name ''i'')])
              ''fit'')
            [Name ''X_train'', Name ''y_train'']
            []),
        Assign [Name ''model_score'']
          (Call (Attribute (Name ''model'') ''score'') [Name ''X_test'', Name ''y_test''] []),
        Expr
          (Call (Name ''print'')
            [JoinedStr
               [Const (CStr ''Model accuracy on single test set split: ''),
                FormattedValue (BinOp (Name ''model_score'') Mult (Const (CInt 100)))
                  (Some ''.2f''),
                Const (CStr ''%'')]]
            []),
        Assign [Name ''cross_val_mean'']
          (Call (Attribute (Name ''np'') ''mean'')
            [Call (Name ''cross_val_score'') [Name ''model'', Name ''X'', Name ''y'']
               [(''cv'', Const (CInt 5))]]
            []),
        Expr
          (Call (Name ''print'')
            [JoinedStr
               [Const (CStr ''5-fold cross-validation score: ''),
                FormattedValue (BinOp (Name ''cross_val_mean'') Mult (Const (CInt 100)))
                  (Some ''.2f''),
                Const (CStr ''%'')]]
            []),
        Expr (Call (Name ''print'') [Const (CStr '''')] [])]
       []]"

text \<open>Cell 38 of the scikit-learn notebook (lines 524 to 544 of the file):
\<^verbatim>\<open>
  # Another way to do it with GridSearchCV...
  np.random.seed(42)
  from sklearn.model_selection import GridSearchCV

  # Define the parameters to search over in dictionary form
  # (these can be any of your target model's hyperparameters)
  param_grid = {'n_estimators': [i for i in range(100, 200, 10)],
                'max_features': [j for j in range(1, 5, 1)]}

  # Setup the grid search
  grid = GridSearchCV(estimator=RandomForestClassifier(),
                      param_grid=param_grid,
                      cv=5,
                      verbose=1)

  # Fit the grid search to the data
  grid.fit(X, y)

  # Find the best parameters
  print(f"The best parameter values are: {grid.best_params_}")
  print(f"With a score of: {grid.best_score_*100:.2f}%")
\<close>\<close>

definition sklearn_cell_38 :: "stmt list" where
  "sklearn_cell_38 =
    [Expr (Call (Attribute (Attribute (Name ''np'') ''random'') ''seed'') [Const (CInt 42)] []),
     ImportFrom ''sklearn.model_selection'' [(''GridSearchCV'', None)],
     Assign [Name ''param_grid'']
       (DictE
         [(Const (CStr ''n_estimators''),
           ListComp (Name ''i'') (Name ''i'')
             (Call (Name ''range'') [Const (CInt 100), Const (CInt 200), Const (CInt 10)] [])
             []),
          (Const (CStr ''max_features''),
           ListComp (Name ''j'') (Name ''j'')
             (Call (Name ''range'') [Const (CInt 1), Const (CInt 5), Const (CInt 1)] [])
             [])]),
     Assign [Name ''grid'']
       (Call (Name ''GridSearchCV'') []
         [(''estimator'', Call (Name ''RandomForestClassifier'') [] []),
          (''param_grid'', Name ''param_grid''),
          (''cv'', Const (CInt 5)),
          (''verbose'', Const (CInt 1))]),
     Expr (Call (Attribute (Name ''grid'') ''fit'') [Name ''X'', Name ''y''] []),
     Expr
       (Call (Name ''print'')
         [JoinedStr
            [Const (CStr ''The best parameter values are: ''),
             FormattedValue (Attribute (Name ''grid'') ''best_params_'') None]]
         []),
     Expr
       (Call (Name ''print'')
         [JoinedStr
            [Const (CStr ''With a score of: ''),
             FormattedValue
               (BinOp (Attribute (Name ''grid'') ''best_score_'') Mult (Const (CInt 100)))
               (Some ''.2f''),
             Const (CStr ''%'')]]
         [])]"

text \<open>Cell 40 of the scikit-learn notebook (lines 560 to 562 of the file):
\<^verbatim>\<open>
  # Set the model to be the best estimator
  clf = grid.best_estimator_
  clf
\<close>\<close>

definition sklearn_cell_40 :: "stmt list" where
  "sklearn_cell_40 =
    [Assign [Name ''clf''] (Attribute (Name ''grid'') ''best_estimator_''),
     Expr (Name ''clf'')]"

text \<open>Cell 42 of the scikit-learn notebook (lines 578 to 583 of the file):
\<^verbatim>\<open>
  # Fit the best model
  clf = clf.fit(X_train, y_train)

  # Find the best model scores on our single test split
  # (note: this may be lower than the cross-validation score since it's only on one split of the data)
  print(f"Best model score on single split of the data: {clf.score(X_test, y_test)*100:.2f}%")
\<close>\<close>

definition sklearn_cell_42 :: "stmt list" where
  "sklearn_cell_42 =
    [Assign [Name ''clf'']
       (Call (Attribute (Name ''clf'') ''fit'') [Name ''X_train'', Name ''y_train''] []),
     Expr
       (Call (Name ''print'')
         [JoinedStr
            [Const (CStr ''Best model score on single split of the data: ''),
             FormattedValue
               (BinOp
                 (Call (Attribute (Name ''clf'') ''score'') [Name ''X_test'', Name ''y_test''] [])
                 Mult
                 (Const (CInt 100)))
               (Some ''.2f''),
             Const (CStr ''%'')]]
         [])]"

text \<open>Cell 44 of the scikit-learn notebook (lines 607 to 610 of the file):
\<^verbatim>\<open>
  import pickle

  # Save an existing model to file
  pickle.dump(grid, open("random_forest_model_1_grid.pkl", "wb"))
\<close>\<close>

definition sklearn_cell_44 :: "stmt list" where
  "sklearn_cell_44 =
    [Import [(''pickle'', None)],
     Expr
       (Call (Attribute (Name ''pickle'') ''dump'')
         [Name ''grid'',
          Call (Name ''open'')
            [Const (CStr ''random_forest_model_1_grid.pkl''), Const (CStr ''wb'')]
            []]
         [])]"

text \<open>Cell 45 of the scikit-learn notebook (lines 619 to 621 of the file):
\<^verbatim>\<open>
  # Load a saved pickle model and evaluate it
  loaded_pickle_model = pickle.load(open("random_forest_model_1_grid.pkl", "rb"))
  print(f"Loaded pickle model prediction score: {loaded_pickle_model.score(X_test, y_test) * 100:.2f}%")
\<close>\<close>

definition sklearn_cell_45 :: "stmt list" where
  "sklearn_cell_45 =
    [Assign [Name ''loaded_pickle_model'']
       (Call (Attribute (Name ''pickle'') ''load'')
         [Call (Name ''open'')
            [Const (CStr ''random_forest_model_1_grid.pkl''), Const (CStr ''rb'')]
            []]
         []),
     Expr
       (Call (Name ''print'')
         [JoinedStr
            [Const (CStr ''Loaded pickle model prediction score: ''),
             FormattedValue
               (BinOp
                 (Call (Attribute (Name ''loaded_pickle_model'') ''score'')
                   [Name ''X_test'', Name ''y_test'']
                   [])
                 Mult
                 (Const (CInt 100)))
               (Some ''.2f''),
             Const (CStr ''%'')]]
         [])]"

definition sklearn_notebook :: "cell list" where
  "sklearn_notebook =
    [CodeCell sklearn_cell_05,
     CodeCell sklearn_cell_08,
     CodeCell sklearn_cell_10,
     CodeCell sklearn_cell_11,
     CodeCell sklearn_cell_13,
     CodeCell sklearn_cell_15,
     CodeCell sklearn_cell_17,
     CodeCell sklearn_cell_20,
     CodeCell sklearn_cell_22,
     CodeCell sklearn_cell_23,
     CodeCell sklearn_cell_24,
     CodeCell sklearn_cell_26,
     CodeCell sklearn_cell_28,
     CodeCell sklearn_cell_30,
     CodeCell sklearn_cell_31,
     CodeCell sklearn_cell_32,
     CodeCell sklearn_cell_34,
     CodeCell sklearn_cell_36,
     CodeCell sklearn_cell_38,
     CodeCell sklearn_cell_40,
     CodeCell sklearn_cell_42,
     CodeCell sklearn_cell_44,
     CodeCell sklearn_cell_45]"

subsection \<open>Reading the syntax\<close>

text \<open>
  The sub-expressions of an expression, in the order Python evaluates them: the callee
  before the arguments, the arguments before the call itself; the iterable of a
  comprehension before its element.
\<close>

fun subexprs :: "expr \<Rightarrow> expr list" where
  "subexprs (Name x) = [Name x]"
| "subexprs (Const c) = [Const c]"
| "subexprs (Attribute e a) = subexprs e @ [Attribute e a]"
| "subexprs (Subscript e i) = subexprs e @ subexprs i @ [Subscript e i]"
| "subexprs (Slice lo hi) =
     (case lo of None \<Rightarrow> [] | Some e \<Rightarrow> subexprs e) @
     (case hi of None \<Rightarrow> [] | Some e \<Rightarrow> subexprs e) @ [Slice lo hi]"
| "subexprs (Call f args kws) =
     subexprs f @ concat (map subexprs args) @ concat (map (\<lambda>kw. subexprs (snd kw)) kws) @
     [Call f args kws]"
| "subexprs (BinOp l oper r) = subexprs l @ subexprs r @ [BinOp l oper r]"
| "subexprs (UnaryOp oper e) = subexprs e @ [UnaryOp oper e]"
| "subexprs (Compare l oper r) = subexprs l @ subexprs r @ [Compare l oper r]"
| "subexprs (IfExp t a b) = subexprs t @ subexprs a @ subexprs b @ [IfExp t a b]"
| "subexprs (ListE es) = concat (map subexprs es) @ [ListE es]"
| "subexprs (TupleE es) = concat (map subexprs es) @ [TupleE es]"
| "subexprs (DictE kvs) =
     concat (map (\<lambda>kv. subexprs (fst kv) @ subexprs (snd kv)) kvs) @ [DictE kvs]"
| "subexprs (ListComp e t it ifs) =
     subexprs it @ concat (map subexprs ifs) @ subexprs e @ [ListComp e t it ifs]"
| "subexprs (JoinedStr es) = concat (map subexprs es) @ [JoinedStr es]"
| "subexprs (FormattedValue e f) = subexprs e @ [FormattedValue e f]"

fun is_call :: "expr \<Rightarrow> bool" where
  "is_call (Call f args kws) = True"
| "is_call e = False"

text \<open>
  The statements inside a statement, itself first. With \<open>deep = False\<close> the body of a
  function definition is left out: executing a \<open>def\<close> binds a name and runs nothing.
  A class body does run when the class is defined.
\<close>

fun substmts :: "bool \<Rightarrow> stmt \<Rightarrow> stmt list" where
  "substmts deep (For t i b e) =
     For t i b e # concat (map (substmts deep) b) @ concat (map (substmts deep) e)"
| "substmts deep (While c b e) =
     While c b e # concat (map (substmts deep) b) @ concat (map (substmts deep) e)"
| "substmts deep (If c b e) =
     If c b e # concat (map (substmts deep) b) @ concat (map (substmts deep) e)"
| "substmts deep (FunctionDef n ps b) =
     FunctionDef n ps b # (if deep then concat (map (substmts deep) b) else [])"
| "substmts deep (ClassDef n bs b) = ClassDef n bs b # concat (map (substmts deep) b)"
| "substmts deep (Try b hs e f) =
     Try b hs e f # concat (map (substmts deep) b) @
     concat (map (\<lambda>h. concat (map (substmts deep) (snd h))) hs) @
     concat (map (substmts deep) e) @ concat (map (substmts deep) f)"
| "substmts deep (With items b) = With items b # concat (map (substmts deep) b)"
| "substmts deep s = [s]"

text \<open>The expressions a statement evaluates itself (not those of the statements in it).\<close>

fun stmt_roots :: "stmt \<Rightarrow> expr list" where
  "stmt_roots (Assign ts v) = v # ts"
| "stmt_roots (AugAssign t oper v) = [t, v]"
| "stmt_roots (Expr e) = [e]"
| "stmt_roots (For t i b e) = [i, t]"
| "stmt_roots (While c b e) = [c]"
| "stmt_roots (If c b e) = [c]"
| "stmt_roots (ClassDef n bs b) = bs"
| "stmt_roots (Return r) = (case r of None \<Rightarrow> [] | Some e \<Rightarrow> [e])"
| "stmt_roots (Raise r) = (case r of None \<Rightarrow> [] | Some e \<Rightarrow> [e])"
| "stmt_roots (Try b hs e f) = concat (map (\<lambda>h. case fst h of None \<Rightarrow> [] | Some x \<Rightarrow> [x]) hs)"
| "stmt_roots (With items b) =
     concat (map (\<lambda>i. fst i # (case snd i of None \<Rightarrow> [] | Some x \<Rightarrow> [x])) items)"
| "stmt_roots (Assert e) = [e]"
| "stmt_roots s = []"

fun cell_stmts :: "cell \<Rightarrow> stmt list" where
  "cell_stmts (CodeCell ss) = ss"
| "cell_stmts (ShellCell interpreter script) = []"

definition notebook_stmts :: "cell list \<Rightarrow> stmt list" where
  "notebook_stmts nb = concat (map cell_stmts nb)"

text \<open>
  Every statement of a notebook's Python cells, nested ones and function bodies
  included; and every call expression written anywhere in them.
\<close>

definition all_stmts :: "cell list \<Rightarrow> stmt list" where
  "all_stmts nb = concat (map (substmts True) (notebook_stmts nb))"

definition all_calls :: "cell list \<Rightarrow> expr list" where
  "all_calls nb = filter is_call (concat (map subexprs (concat (map stmt_roots (all_stmts nb)))))"

text \<open>
  The calls a notebook makes when its cells run from top to bottom, in program order:
  the calls of the statements executed at top level, each loop body and branch once,
  function bodies left out.
\<close>

definition run_calls :: "cell list \<Rightarrow> expr list" where
  "run_calls nb =
     filter is_call
       (concat (map subexprs (concat (map stmt_roots
         (concat (map (substmts False) (notebook_stmts nb)))))))"

text \<open>
  The name of what a call calls: \<open>milvus_client.search\<close>, \<open>emb_text\<close>; a method of a
  literal or of a call's result keeps a placeholder for its receiver.
\<close>

fun dotted :: "expr \<Rightarrow> string" where
  "dotted (Name x) = x"
| "dotted (Attribute e a) = dotted e @ ''.'' @ a"
| "dotted (Call f args kws) = dotted f @ ''()''"
| "dotted (Const c) = ''<const>''"
| "dotted e = ''<expr>''"

fun callee :: "expr \<Rightarrow> string" where
  "callee (Call f args kws) = dotted f"
| "callee e = []"

fun method_name :: "expr \<Rightarrow> string" where
  "method_name (Call (Attribute e a) args kws) = a"
| "method_name (Call (Name x) args kws) = x"
| "method_name e = []"

fun kwargs :: "expr \<Rightarrow> (string \<times> expr) list" where
  "kwargs (Call f args kws) = kws"
| "kwargs e = []"

fun positional :: "expr \<Rightarrow> expr list" where
  "positional (Call f args kws) = args"
| "positional e = []"

definition passes_keyword :: "string \<Rightarrow> expr \<Rightarrow> bool" where
  "passes_keyword k e = (k \<in> set (map fst (kwargs e)))"

subsubsection \<open>Names: what a statement binds and what it reads\<close>

text \<open>The names an assignment target binds.\<close>

fun targets :: "expr \<Rightarrow> string list" where
  "targets (Name x) = [x]"
| "targets (TupleE es) = concat (map targets es)"
| "targets (ListE es) = concat (map targets es)"
| "targets e = []"

text \<open>
  The names an expression reads, \<open>B\<close> being the names bound by enclosing comprehensions.
  A target that is a subscript or an attribute reads its object:
  \<open>os.environ["HF_TOKEN"] = ""\<close> reads \<open>os\<close>.
\<close>

fun reads :: "string list \<Rightarrow> expr \<Rightarrow> string list" where
  "reads B (Name x) = (if x \<in> set B then [] else [x])"
| "reads B (Const c) = []"
| "reads B (Attribute e a) = reads B e"
| "reads B (Subscript e i) = reads B e @ reads B i"
| "reads B (Slice lo hi) =
     (case lo of None \<Rightarrow> [] | Some e \<Rightarrow> reads B e) @
     (case hi of None \<Rightarrow> [] | Some e \<Rightarrow> reads B e)"
| "reads B (Call f args kws) =
     reads B f @ concat (map (reads B) args) @ concat (map (\<lambda>kw. reads B (snd kw)) kws)"
| "reads B (BinOp l oper r) = reads B l @ reads B r"
| "reads B (UnaryOp oper e) = reads B e"
| "reads B (Compare l oper r) = reads B l @ reads B r"
| "reads B (IfExp t a b) = reads B t @ reads B a @ reads B b"
| "reads B (ListE es) = concat (map (reads B) es)"
| "reads B (TupleE es) = concat (map (reads B) es)"
| "reads B (DictE kvs) = concat (map (\<lambda>kv. reads B (fst kv) @ reads B (snd kv)) kvs)"
| "reads B (ListComp e t it ifs) =
     reads B it @ concat (map (reads (targets t @ B)) ifs) @ reads (targets t @ B) e"
| "reads B (JoinedStr es) = concat (map (reads B) es)"
| "reads B (FormattedValue e f) = reads B e"

fun target_reads :: "expr \<Rightarrow> string list" where
  "target_reads (Name x) = []"
| "target_reads (TupleE es) = concat (map target_reads es)"
| "target_reads (ListE es) = concat (map target_reads es)"
| "target_reads e = reads [] e"

fun import_name :: "string \<times> string option \<Rightarrow> string" where
  "import_name (m, Some a) = a"
| "import_name (m, None) = takeWhile (\<lambda>c. c \<noteq> CHR ''.'') m"

fun from_name :: "string \<times> string option \<Rightarrow> string" where
  "from_name (n, Some a) = a"
| "from_name (n, None) = n"

text \<open>
  The names a statement binds in the scope it stands in. A loop or a branch binds what
  its body binds; a definition binds its own name only.
\<close>

fun binds :: "stmt \<Rightarrow> string list" where
  "binds (Import als) = map import_name als"
| "binds (ImportFrom m als) = map from_name als"
| "binds (Assign ts v) = concat (map targets ts)"
| "binds (AugAssign t oper v) = targets t"
| "binds (For t i b e) = targets t @ concat (map binds b) @ concat (map binds e)"
| "binds (While c b e) = concat (map binds b) @ concat (map binds e)"
| "binds (If c b e) = concat (map binds b) @ concat (map binds e)"
| "binds (FunctionDef n ps b) = [n]"
| "binds (ClassDef n bs b) = [n]"
| "binds (Try b hs e f) =
     concat (map binds b) @ concat (map (\<lambda>h. concat (map binds (snd h))) hs) @
     concat (map binds e) @ concat (map binds f)"
| "binds (With items b) =
     concat (map (\<lambda>i. case snd i of None \<Rightarrow> [] | Some t \<Rightarrow> targets t) items) @
     concat (map binds b)"
| "binds s = []"

definition defined :: "string list \<Rightarrow> string list \<Rightarrow> bool" where
  "defined D xs = list_all (\<lambda>x. x \<in> set D) xs"

text \<open>
  \<open>scoped D s\<close>: statement \<open>s\<close>, run where the names \<open>D\<close> are bound, reads only names
  of \<open>D\<close> or names that an earlier statement of \<open>s\<close> itself has bound. A block is checked
  statement by statement, each one seeing what the ones before it have bound: a name
  read before the statement that produces it fails the check. The body of a function is
  checked where the function is defined, with its parameters and its own name bound.
  A \<open>try\<close> statement is not analysed: the check refuses it.
\<close>

fun scoped :: "string list \<Rightarrow> stmt \<Rightarrow> bool"
  and scoped_block :: "string list \<Rightarrow> stmt list \<Rightarrow> bool" where
  "scoped D (Assign ts v) = (defined D (reads [] v) \<and> defined D (concat (map target_reads ts)))"
| "scoped D (AugAssign t oper v) = (defined D (reads [] t) \<and> defined D (reads [] v))"
| "scoped D (Expr e) = defined D (reads [] e)"
| "scoped D (For t i b e) =
     (defined D (reads [] i) \<and> defined D (target_reads t) \<and>
      scoped_block (targets t @ D) b \<and>
      scoped_block (concat (map binds b) @ targets t @ D) e)"
| "scoped D (While c b e) =
     (defined D (reads [] c) \<and> scoped_block D b \<and> scoped_block (concat (map binds b) @ D) e)"
| "scoped D (If c b e) = (defined D (reads [] c) \<and> scoped_block D b \<and> scoped_block D e)"
| "scoped D (FunctionDef n ps b) = scoped_block (ps @ n # D) b"
| "scoped D (ClassDef n bs b) =
     (defined D (concat (map (reads []) bs)) \<and> scoped_block (n # D) b)"
| "scoped D (Return r) = (case r of None \<Rightarrow> True | Some e \<Rightarrow> defined D (reads [] e))"
| "scoped D (Raise r) = (case r of None \<Rightarrow> True | Some e \<Rightarrow> defined D (reads [] e))"
| "scoped D (Try b hs e f) = False"
| "scoped D (With items b) =
     (defined D (concat (map (\<lambda>i. reads [] (fst i)) items)) \<and>
      scoped_block
        (concat (map (\<lambda>i. case snd i of None \<Rightarrow> [] | Some t \<Rightarrow> targets t) items) @ D) b)"
| "scoped D (Assert e) = defined D (reads [] e)"
| "scoped D (Import als) = True"
| "scoped D (ImportFrom m als) = True"
| "scoped D Break = True"
| "scoped D Continue = True"
| "scoped D Pass = True"
| "scoped D (LineMagic m) = True"
| "scoped_block D [] = True"
| "scoped_block D (s # ss) = (scoped D s \<and> scoped_block (binds s @ D) ss)"

text \<open>The built-in names of Python that the notebooks use without importing them.\<close>

definition builtins :: "string list" where
  "builtins = [''print'', ''len'', ''range'', ''enumerate'', ''open'', ''super'']"

definition well_scoped :: "cell list \<Rightarrow> bool" where
  "well_scoped nb = scoped_block builtins (notebook_stmts nb)"

subsubsection \<open>Stages, statements that handle failure, branches and loops\<close>

text \<open>
  The stages of the RAG pipeline, each recognised by the call that performs it.
  \<open>emb_text\<close> is called three times: on a test sentence (no stage), on \<open>line\<close> inside the
  loop over the chunk texts, and on \<open>question\<close> as an argument of the search.
\<close>

datatype rag_stage =
    LoadPDF | SplitText | EmbedChunk | InsertChunks | EmbedQuery | SimilaritySearch
  | ConcatenateText | FormatPrompt | CallLLM

definition rag_stage_of :: "expr \<Rightarrow> rag_stage option" where
  "rag_stage_of c =
     (if callee c = ''emb_text'' then
        (if positional c = [Name ''line''] then Some EmbedChunk
         else if positional c = [Name ''question''] then Some EmbedQuery
         else None)
      else
        map_of
          [(''loader.load'', LoadPDF),
           (''text_splitter.split_documents'', SplitText),
           (''milvus_client.insert'', InsertChunks),
           (''milvus_client.search'', SimilaritySearch),
           (''<const>.join'', ConcatenateText),
           (''PROMPT.format'', FormatPrompt),
           (''llm_client.text_generation'', CallLLM)]
          (callee c))"

definition rag_stages :: "cell list \<Rightarrow> rag_stage list" where
  "rag_stages nb = List.map_filter rag_stage_of (run_calls nb)"

text \<open>The stages of the scikit-learn workflow, recognised by the function or method called.\<close>

datatype sklearn_stage =
    LoadData | SplitData | Instantiate | Fit | Predict | Score | GridSearch | PickleModel

definition sklearn_stage_of :: "expr \<Rightarrow> sklearn_stage option" where
  "sklearn_stage_of c =
     map_of
       [(''read_csv'', LoadData),
        (''train_test_split'', SplitData),
        (''RandomForestClassifier'', Instantiate),
        (''fit'', Fit),
        (''predict'', Predict),
        (''score'', Score),
        (''GridSearchCV'', GridSearch),
        (''dump'', PickleModel)]
       (method_name c)"

definition sklearn_stages :: "cell list \<Rightarrow> sklearn_stage list" where
  "sklearn_stages nb = List.map_filter sklearn_stage_of (run_calls nb)"

text \<open>The elements of a list in the order of their first occurrence.\<close>

definition first_seen :: "'a list \<Rightarrow> 'a list" where
  "first_seen xs = rev (remdups (rev xs))"

definition first_call :: "string \<Rightarrow> cell list \<Rightarrow> expr option" where
  "first_call m nb = find (\<lambda>c. method_name c = m) (run_calls nb)"

text \<open>
  A statement that can catch an exception, replace it, or loop until a condition
  changes: \<open>try\<close> (with its \<open>except\<close> and \<open>finally\<close>), \<open>with\<close> (a context manager
  may swallow an exception), \<open>raise\<close>, and \<open>while\<close>, the only loop that can repeat an
  attempt. A \<open>for\<close> loop walks a sequence once; without a \<open>try\<close> in its body an
  exception ends it.
\<close>

fun handles_failure :: "stmt \<Rightarrow> bool" where
  "handles_failure (Try b hs e f) = True"
| "handles_failure (With items b) = True"
| "handles_failure (Raise r) = True"
| "handles_failure (While c b e) = True"
| "handles_failure s = False"

definition failure_handlers :: "cell list \<Rightarrow> stmt list" where
  "failure_handlers nb = filter handles_failure (all_stmts nb)"

text \<open>The conditions a notebook branches on, and the sequences its loops walk.\<close>

fun branch_test :: "stmt \<Rightarrow> expr list" where
  "branch_test (If c b e) = [c]"
| "branch_test s = []"

fun conditional_test :: "expr \<Rightarrow> expr list" where
  "conditional_test (IfExp t a b) = [t]"
| "conditional_test e = []"

definition branch_tests :: "cell list \<Rightarrow> expr list" where
  "branch_tests nb =
     concat (map branch_test (all_stmts nb)) @
     concat (map conditional_test (concat (map subexprs (concat (map stmt_roots (all_stmts nb))))))"

fun loop_iterable :: "stmt \<Rightarrow> expr list" where
  "loop_iterable (For t i b e) = [i]"
| "loop_iterable s = []"

definition loop_iterables :: "cell list \<Rightarrow> expr list" where
  "loop_iterables nb = concat (map loop_iterable (all_stmts nb))"

text \<open>The keyword names a notebook's calls pass, each once.\<close>

definition keyword_names :: "cell list \<Rightarrow> string list" where
  "keyword_names nb = first_seen (concat (map (\<lambda>c. map fst (kwargs c)) (all_calls nb)))"

text \<open>
  Calls that would stop work in progress, by the name of the function or method: the
  ways Python code cancels a task, a thread, a process or a pending request.
\<close>

definition cancelling_names :: "string list" where
  "cancelling_names =
     [''cancel'', ''cancel_join_thread'', ''terminate'', ''kill'', ''abort'', ''interrupt'',
      ''interrupt_main'', ''shutdown'', ''signal'', ''alarm'', ''raise_signal'', ''exit'',
      ''_exit'', ''quit'', ''stop'', ''close'', ''settimeout'', ''setdefaulttimeout'',
      ''wait_for'', ''wait'']"

definition cancelling_calls :: "cell list \<Rightarrow> expr list" where
  "cancelling_calls nb = filter (\<lambda>c. method_name c \<in> set cancelling_names) (all_calls nb)"

definition mentions_attribute :: "string \<Rightarrow> stmt \<Rightarrow> bool" where
  "mentions_attribute a s =
     list_ex (\<lambda>e. case e of Attribute x b \<Rightarrow> b = a | _ \<Rightarrow> False)
       (concat (map subexprs (stmt_roots s)))"

fun shell_script :: "cell \<Rightarrow> (string \<times> string) list" where
  "shell_script (ShellCell interpreter script) = [(interpreter, script)]"
| "shell_script (CodeCell ss) = []"

text \<open>The words of a script: its text cut at spaces and line ends.\<close>

fun words_from :: "string \<Rightarrow> string \<Rightarrow> string list" where
  "words_from w [] = (if w = [] then [] else [w])"
| "words_from w (c # cs) =
     (if c = CHR '' '' \<or> c = CHR 0x0A
      then (if w = [] then words_from [] cs else w # words_from [] cs)
      else words_from (w @ [c]) cs)"

definition shell_scripts :: "cell list \<Rightarrow> (string \<times> string list) list" where
  "shell_scripts nb = map (\<lambda>p. (fst p, words_from [] (snd p))) (concat (map shell_script nb))"

definition calls_on :: "string \<Rightarrow> cell list \<Rightarrow> expr list" where
  "calls_on receiver nb =
     filter (\<lambda>c. take (length receiver + 1) (callee c) = receiver @ ''.'') (all_calls nb)"

section \<open>Behaviour\<close>

text \<open>
  The functions the notebooks define, and the cells whose effect matters, as HOL
  functions. What a third-party library computes is a parameter: the model says which
  library operation is applied to what and in which order, and nothing about its
  result. A library call is taken to return; that nothing in the notebooks would
  intercept it if it raised is a property of their syntax, stated with the others. The
  failures written out are those of Python itself in notebook code: a division by zero,
  a local variable read before it is bound, an index out of range, a file that is not
  there.
\<close>

datatype py_error = ZeroDivisionError | UnboundLocalError | IndexError | FileNotFoundError

subsection \<open>The process environment (RAG notebook, cell 3)\<close>

text \<open>
  \<^verbatim>\<open>os.environ["HF_TOKEN"] = ""\<close> stores the empty string under \<open>HF_TOKEN\<close> in the
  environment of the running process.
\<close>

type_synonym environ = "string \<rightharpoonup> string"

definition rag_cell_03_run :: "environ \<Rightarrow> environ" where
  "rag_cell_03_run environ = environ(''HF_TOKEN'' \<mapsto> '''')"

text \<open>
  Modelled from the spec: how the inference client obtains its token is library code,
  not part of the repository. The client is built by
  \<^verbatim>\<open>InferenceClient(model=repo_id, timeout=120)\<close>, with no token argument, and the
  specification says that the access token is "read from an environment variable"; the
  token the client sees is then what \<open>HF_TOKEN\<close> holds in the environment when the
  client is built, that is, after cell 3 has run. \<open>environ0\<close> is the environment the
  notebook starts in.
\<close>

definition client_token :: "environ \<Rightarrow> string option" where
  "client_token environ0 = (rag_cell_03_run environ0) ''HF_TOKEN''"

definition user_environ :: environ where
  "user_environ = [''HF_TOKEN'' \<mapsto> ''hf_user_secret'']"

subsection \<open>Embedding and the records inserted (RAG notebook, cells 11 and 23)\<close>

text \<open>
  \<^verbatim>\<open>
  def emb_text(text):
      return embedding_model.encode([text], normalize_embeddings=True).tolist()[0]
  \<close>
  \<open>encode\<close> stands for the library's \<open>encode(..., normalize_embeddings=True).tolist()\<close>:
  a list of vectors for a list of texts. Index 0 of an empty list raises \<open>IndexError\<close>.
\<close>

definition emb_text :: "(string list \<Rightarrow> 'v list) \<Rightarrow> string \<Rightarrow> py_error + 'v" where
  "emb_text encode text = (case encode [text] of [] \<Rightarrow> Inl IndexError | v # vs \<Rightarrow> Inr v)"

text \<open>
  A record handed to the vector store: the dictionary
  \<^verbatim>\<open>{"id": i, "vector": emb_text(line), "text": line}\<close>.
\<close>

record 'v entity =
  entity_id :: int
  entity_vector :: 'v
  entity_text :: string

text \<open>
  \<^verbatim>\<open>
  data = []
  for i, line in enumerate(tqdm(text_lines, desc="Creating embeddings")):
      data.append({"id": i, "vector": emb_text(line), "text": line})
  \<close>
  \<open>enumerate\<close> counts from 0; \<open>tqdm\<close> yields the elements of its argument in order.
\<close>

fun embed_loop ::
  "(string list \<Rightarrow> 'v list) \<Rightarrow> nat \<Rightarrow> string list \<Rightarrow> 'v entity list \<Rightarrow> py_error + 'v entity list"
where
  "embed_loop encode i [] data = Inr data"
| "embed_loop encode i (line # rest) data =
     (case emb_text encode line of
        Inl e \<Rightarrow> Inl e
      | Inr v \<Rightarrow>
          embed_loop encode (i + 1) rest
            (data @ [\<lparr>entity_id = int i, entity_vector = v, entity_text = line\<rparr>]))"

definition rag_cell_23_data :: "(string list \<Rightarrow> 'v list) \<Rightarrow> string list \<Rightarrow> py_error + 'v entity list"
where
  "rag_cell_23_data encode text_lines = embed_loop encode 0 text_lines []"

definition toy_encode :: "string list \<Rightarrow> nat list" where
  "toy_encode texts = map length texts"

subsection \<open>The autoencoder (autoencoder notebook, cells 4 and 12)\<close>

definition NUM_EPOCHS :: int where
  "NUM_EPOCHS = 10"

text \<open>
  A layer as the constructor call that makes it: input channels, output channels,
  kernel size.
\<close>

datatype layer = Conv2d nat nat nat | ConvTranspose2d nat nat nat

record AutoEncoder =
  enc1 :: layer
  enc2 :: layer
  dec1 :: layer
  dec2 :: layer

definition AutoEncoder_init :: AutoEncoder where
  "AutoEncoder_init =
     \<lparr>enc1 = Conv2d 3 8 3, enc2 = Conv2d 8 4 3,
      dec1 = ConvTranspose2d 4 8 3, dec2 = ConvTranspose2d 8 3 3\<rparr>"

text \<open>
  \<open>forward\<close>, with the library's application of a layer to a tensor (\<open>apply_layer\<close>) and
  \<open>F.relu\<close> as parameters. The variable \<open>x\<close> is assigned four times; each assignment is
  a new name here.
\<close>

definition forward :: "(layer \<Rightarrow> 't \<Rightarrow> 't) \<Rightarrow> ('t \<Rightarrow> 't) \<Rightarrow> AutoEncoder \<Rightarrow> 't \<Rightarrow> 't" where
  "forward apply_layer relu self x =
     (let x1 = relu (apply_layer (enc1 self) x);
          x2 = relu (apply_layer (enc2 self) x1);
          x3 = relu (apply_layer (dec1 self) x2);
          x4 = relu (apply_layer (dec2 self) x3)
      in x4)"

subsection \<open>Training (autoencoder notebook, cell 16)\<close>

text \<open>
  The library operations \<open>train\<close> and \<open>test_image_reconstruction\<close> use. \<open>'s\<close> is the
  state the network and the optimizer share (parameters, gradients, moments), \<open>'t\<close> a
  tensor, \<open>'l\<close> a loss tensor, \<open>'f\<close> a Python float. Float arithmetic is a parameter
  too (\<open>fzero\<close> is \<open>0.0\<close>, \<open>fadd\<close> is \<open>+\<close>, \<open>fdiv x n\<close> is \<open>x / n\<close> for a non-zero integer
  \<open>n\<close>): nothing is assumed about rounding.
\<close>

record ('s, 't, 'l, 'f) lib =
  to_device :: "'t \<Rightarrow> 't"
  cpu_data :: "'t \<Rightarrow> 't"
  view_images :: "'t \<Rightarrow> 't"
  zero_grad :: "'s \<Rightarrow> 's"
  criterion :: "'t \<Rightarrow> 't \<Rightarrow> 'l"
  backward :: "'l \<Rightarrow> 's \<Rightarrow> 's"
  optimizer_step :: "'s \<Rightarrow> 's"
  item :: "'l \<Rightarrow> 'f"
  fzero :: 'f
  fadd :: "'f \<Rightarrow> 'f \<Rightarrow> 'f"
  fdiv :: "'f \<Rightarrow> nat \<Rightarrow> 'f"

text \<open>
  A data loader: \<open>len\<close> is what \<open>len(trainloader)\<close> returns, \<open>batches e\<close> the batches the
  loop \<open>for data in trainloader\<close> receives in epoch \<open>e\<close> (the notebook's loader shuffles,
  so they differ from epoch to epoch). A batch is a pair of images and labels.
\<close>

record 'b loader =
  len :: nat
  batches :: "nat \<Rightarrow> 'b list"

text \<open>
  What the functions do that can be observed: a forward pass of the network, a line
  printed at the end of an epoch (the epoch number printed, the number of epochs, the
  loss; the elapsed time, read from the clock, is left out), an image file written.
\<close>

datatype ('t, 'f) event = Forward 't | Printed nat int 'f | Saved string 't

text \<open>
  The variables of \<open>train\<close> that live across iterations. \<open>img\<close> and \<open>outputs\<close> are
  unbound (\<open>None\<close>) until the inner loop has run once.
\<close>

record ('s, 't, 'f) train_vars =
  params :: 's
  img :: "'t option"
  outputs :: "'t option"
  train_loss :: "'f list"
  events :: "('t, 'f) event list"

text \<open>Python's \<open>'{}'.format(n)\<close> for a natural number: its decimal digits.\<close>

fun str_nat :: "nat \<Rightarrow> string" where
  "str_nat n =
     (if n < 10 then [''0123456789'' ! n]
      else str_nat (n div 10) @ [''0123456789'' ! (n mod 10)])"

text \<open>
  \<^verbatim>\<open>
  def save_decoded_image(img, name):
      img = img.view(img.size(0), 3, 32, 32)
      save_image(img, './image_cifar10/' + name + '.png')
  \<close>
\<close>

definition save_decoded_image :: "('s, 't, 'l, 'f) lib \<Rightarrow> 't \<Rightarrow> string \<Rightarrow> ('t, 'f) event" where
  "save_decoded_image L im name =
     Saved (''./image_cifar10/'' @ name @ ''.png'') (view_images L im)"

text \<open>
  The inner loop of \<open>train\<close>:
  \<^verbatim>\<open>
  for data in trainloader:
      img, _ = data # no need for the labels
      img = img.to(device)
      optimizer.zero_grad()
      outputs = net(img)
      loss = criterion(outputs, img)
      loss.backward()
      optimizer.step()
      running_loss += loss.item()
  \<close>
\<close>

fun batch_loop ::
  "('s, 't, 'l, 'f) lib \<Rightarrow> ('s \<Rightarrow> 't \<Rightarrow> 't) \<Rightarrow> ('t \<times> 'y) list \<Rightarrow>
   ('s, 't, 'f) train_vars \<times> 'f \<Rightarrow> ('s, 't, 'f) train_vars \<times> 'f"
where
  "batch_loop L net [] (v, running_loss) = (v, running_loss)"
| "batch_loop L net (data # rest) (v, running_loss) =
     (let im = to_device L (fst data);
          s1 = zero_grad L (params v);
          out = net s1 im;
          loss = criterion L out im;
          s2 = backward L loss s1;
          s3 = optimizer_step L s2
      in batch_loop L net rest
           (v\<lparr>params := s3, img := Some im, outputs := Some out,
              events := events v @ [Forward im]\<rparr>,
            fadd L running_loss (item L loss)))"

text \<open>
  The outer loop, over the epochs that remain:
  \<^verbatim>\<open>
  for epoch in range(NUM_EPOCHS):
      start = time.time()
      running_loss = 0.0
      for data in trainloader: ...
      loss = running_loss / len(trainloader)
      train_loss.append(loss)
      end = time.time()
      total_time = end - start
      print('- Epoch {} of {}, ETA: {:.2f} Train Loss: {:.3f}'.format(
          epoch+1, NUM_EPOCHS, total_time, loss))
      if epoch % 5 == 0:
          save_decoded_image(img.cpu().data, name='original{}'.format(epoch))
          save_decoded_image(outputs.cpu().data, name='decoded{}'.format(epoch))
  \<close>
  Dividing a float by the integer 0 raises \<open>ZeroDivisionError\<close>; reading \<open>img\<close> or
  \<open>outputs\<close> while unbound raises \<open>UnboundLocalError\<close>.
\<close>

fun epoch_loop ::
  "('s, 't, 'l, 'f) lib \<Rightarrow> ('s \<Rightarrow> 't \<Rightarrow> 't) \<Rightarrow> ('t \<times> 'y) loader \<Rightarrow> int \<Rightarrow> nat list \<Rightarrow>
   ('s, 't, 'f) train_vars \<Rightarrow> py_error + ('s, 't, 'f) train_vars"
where
  "epoch_loop L net trainloader N [] v = Inr v"
| "epoch_loop L net trainloader N (epoch # rest) v =
     (case batch_loop L net (batches trainloader epoch) (v, fzero L) of
        (v1, running_loss) \<Rightarrow>
          if len trainloader = 0 then Inl ZeroDivisionError
          else
            let loss = fdiv L running_loss (len trainloader);
                v2 = v1\<lparr>train_loss := train_loss v1 @ [loss],
                        events := events v1 @ [Printed (epoch + 1) N loss]\<rparr>
            in
              if epoch mod 5 = 0 then
                (case img v2 of
                   None \<Rightarrow> Inl UnboundLocalError
                 | Some im \<Rightarrow>
                     (case outputs v2 of
                        None \<Rightarrow> Inl UnboundLocalError
                      | Some out \<Rightarrow>
                          epoch_loop L net trainloader N rest
                            (v2\<lparr>events := events v2 @
                               [save_decoded_image L (cpu_data L im)
                                  (''original'' @ str_nat epoch),
                                save_decoded_image L (cpu_data L out)
                                  (''decoded'' @ str_nat epoch)]\<rparr>)))
              else epoch_loop L net trainloader N rest v2)"

text \<open>
  \<open>train(net, trainloader, NUM_EPOCHS)\<close>, started with the shared state \<open>s\<close>.
  \<open>range(N)\<close> is empty for \<open>N \<le> 0\<close>. The result holds the list Python returns
  (\<open>train_loss\<close>) together with the final state and the events.
\<close>

definition train ::
  "('s, 't, 'l, 'f) lib \<Rightarrow> ('s \<Rightarrow> 't \<Rightarrow> 't) \<Rightarrow> ('t \<times> 'y) loader \<Rightarrow> int \<Rightarrow> 's \<Rightarrow>
   py_error + ('s, 't, 'f) train_vars"
where
  "train L net trainloader N s =
     epoch_loop L net trainloader N [0..<nat N]
       \<lparr>params = s, img = None, outputs = None, train_loss = [], events = []\<rparr>"

text \<open>Both \<open>img\<close> and \<open>outputs\<close> are bound.\<close>

definition bound :: "('s, 't, 'f) train_vars \<Rightarrow> bool" where
  "bound v = (img v \<noteq> None \<and> outputs v \<noteq> None)"

text \<open>The epoch numbers printed, in order: one for each iteration of the outer loop that
  reaches its \<open>print\<close>.\<close>

fun printed_epoch :: "('t, 'f) event \<Rightarrow> nat list" where
  "printed_epoch (Printed k N loss) = [k]"
| "printed_epoch ev = []"

definition epochs_printed :: "('t, 'f) event list \<Rightarrow> nat list" where
  "epochs_printed evs = concat (map printed_epoch evs)"

subsubsection \<open>The per-batch losses, said directly\<close>

text \<open>
  What one pass of the inner loop's body computes from the shared state \<open>s\<close> and a
  batch: the loss value added to \<open>running_loss\<close>, and the state it leaves.
\<close>

definition batch_loss :: "('s, 't, 'l, 'f) lib \<Rightarrow> ('s \<Rightarrow> 't \<Rightarrow> 't) \<Rightarrow> 's \<Rightarrow> 't \<times> 'y \<Rightarrow> 'f" where
  "batch_loss L net s data =
     item L (criterion L (net (zero_grad L s) (to_device L (fst data))) (to_device L (fst data)))"

definition batch_params :: "('s, 't, 'l, 'f) lib \<Rightarrow> ('s \<Rightarrow> 't \<Rightarrow> 't) \<Rightarrow> 's \<Rightarrow> 't \<times> 'y \<Rightarrow> 's" where
  "batch_params L net s data =
     optimizer_step L
       (backward L
          (criterion L (net (zero_grad L s) (to_device L (fst data))) (to_device L (fst data)))
          (zero_grad L s))"

text \<open>The loss values of the batches \<open>ds\<close>, processed in order from state \<open>s\<close>.\<close>

fun batch_losses :: "('s, 't, 'l, 'f) lib \<Rightarrow> ('s \<Rightarrow> 't \<Rightarrow> 't) \<Rightarrow> 's \<Rightarrow> ('t \<times> 'y) list \<Rightarrow> 'f list" where
  "batch_losses L net s [] = []"
| "batch_losses L net s (d # ds) = batch_loss L net s d # batch_losses L net (batch_params L net s d) ds"

text \<open>The shared state at the start of epoch \<open>e\<close>, and the loss values of that epoch.\<close>

primrec params_at_epoch ::
  "('s, 't, 'l, 'f) lib \<Rightarrow> ('s \<Rightarrow> 't \<Rightarrow> 't) \<Rightarrow> ('t \<times> 'y) loader \<Rightarrow> 's \<Rightarrow> nat \<Rightarrow> 's"
where
  "params_at_epoch L net trainloader s 0 = s"
| "params_at_epoch L net trainloader s (Suc e) =
     foldl (batch_params L net) (params_at_epoch L net trainloader s e) (batches trainloader e)"

definition epoch_losses ::
  "('s, 't, 'l, 'f) lib \<Rightarrow> ('s \<Rightarrow> 't \<Rightarrow> 't) \<Rightarrow> ('t \<times> 'y) loader \<Rightarrow> 's \<Rightarrow> nat \<Rightarrow> 'f list"
where
  "epoch_losses L net trainloader s e =
     batch_losses L net (params_at_epoch L net trainloader s e) (batches trainloader e)"

text \<open>The sum of a list of floats, added from left to right starting at \<open>0.0\<close>.\<close>

definition float_sum :: "('s, 't, 'l, 'f) lib \<Rightarrow> 'f list \<Rightarrow> 'f" where
  "float_sum L xs = foldl (fadd L) (fzero L) xs"

subsection \<open>Reconstruction of test images (autoencoder notebook, cell 16)\<close>

text \<open>
  A \<open>for\<close> loop whose body may \<open>break\<close>: the body returns the new state and whether the
  loop goes on.
\<close>

datatype flow = Next | Broke

fun for_loop :: "('b \<Rightarrow> 'v \<Rightarrow> 'v \<times> flow) \<Rightarrow> 'b list \<Rightarrow> 'v \<Rightarrow> 'v" where
  "for_loop body [] v = v"
| "for_loop body (x # xs) v =
     (case body x v of (v', Broke) \<Rightarrow> v' | (v', Next) \<Rightarrow> for_loop body xs v')"

text \<open>
  \<^verbatim>\<open>
  def test_image_reconstruction(net, testloader):
       for batch in testloader:
          img, _ = batch
          img = img.to(device)
          outputs = net(img)
          outputs = outputs.view(outputs.size(0), 3, 32, 32).cpu().data
          save_image(outputs, 'conv_cifar10_reconstruction.png')
          break
  \<close>
  The state of the loop is the list of events so far; \<open>testloader\<close> is the sequence of
  batches the loop would receive.
\<close>

definition reconstruction_body ::
  "('s, 't, 'l, 'f) lib \<Rightarrow> ('s \<Rightarrow> 't \<Rightarrow> 't) \<Rightarrow> 's \<Rightarrow> 't \<times> 'y \<Rightarrow> ('t, 'f) event list \<Rightarrow>
   ('t, 'f) event list \<times> flow"
where
  "reconstruction_body L net s batch evs =
     (let im = to_device L (fst batch);
          out = net s im;
          out' = cpu_data L (view_images L out)
      in (evs @ [Forward im, Saved ''conv_cifar10_reconstruction.png'' out'], Broke))"

definition test_image_reconstruction ::
  "('s, 't, 'l, 'f) lib \<Rightarrow> ('s \<Rightarrow> 't \<Rightarrow> 't) \<Rightarrow> ('t \<times> 'y) list \<Rightarrow> 's \<Rightarrow> ('t, 'f) event list"
where
  "test_image_reconstruction L net testloader s = for_loop (reconstruction_body L net s) testloader []"

subsection \<open>Saving and loading the model (scikit-learn notebook, cells 44 and 45)\<close>

text \<open>
  The files on disk are a map from paths to contents. \<open>dumps\<close> and \<open>loads\<close> stand for
  what \<open>pickle.dump\<close> writes for an object and what \<open>pickle.load\<close> builds from a file's
  contents; \<open>score\<close> for the model's \<open>score\<close> method.
  \<^verbatim>\<open>pickle.dump(grid, open("random_forest_model_1_grid.pkl", "wb"))\<close>
  creates or overwrites the file. The file object is not closed by the notebook; the
  model takes the contents as written when the statement ends, as happens when the
  interpreter releases the unreferenced file object at once.
\<close>

definition sklearn_cell_44_run :: "('m \<Rightarrow> 'bytes) \<Rightarrow> 'm \<Rightarrow> (string \<rightharpoonup> 'bytes) \<Rightarrow> (string \<rightharpoonup> 'bytes)" where
  "sklearn_cell_44_run dumps grid files = files(''random_forest_model_1_grid.pkl'' \<mapsto> dumps grid)"

text \<open>
  \<^verbatim>\<open>
  loaded_pickle_model = pickle.load(open("random_forest_model_1_grid.pkl", "rb"))
  print(f"... {loaded_pickle_model.score(X_test, y_test) * 100:.2f}%")
  \<close>
  Opening a file that does not exist for reading raises \<open>FileNotFoundError\<close>. The result
  is the score computed.
\<close>

definition sklearn_cell_45_run ::
  "('bytes \<Rightarrow> 'm) \<Rightarrow> ('m \<Rightarrow> 'x \<Rightarrow> 'y \<Rightarrow> 'f) \<Rightarrow> 'x \<Rightarrow> 'y \<Rightarrow> (string \<rightharpoonup> 'bytes) \<Rightarrow> py_error + 'f"
where
  "sklearn_cell_45_run loads score X_test y_test files =
     (case files ''random_forest_model_1_grid.pkl'' of
        None \<Rightarrow> Inl FileNotFoundError
      | Some contents \<Rightarrow> Inr (score (loads contents) X_test y_test))"

subsection \<open>Small concrete instances\<close>

text \<open>
  A library over numbers, to run the functions on: a tensor and the shared state are
  integers, a float is a real number.
\<close>

definition toy_lib :: "(int, int, int, real) lib" where
  "toy_lib =
     \<lparr>to_device = (\<lambda>t. t), cpu_data = (\<lambda>t. t), view_images = (\<lambda>t. t),
      zero_grad = (\<lambda>s. s), criterion = (\<lambda>out im. (out - im) * (out - im)),
      backward = (\<lambda>l s. s), optimizer_step = (\<lambda>s. s + 1), item = (\<lambda>l. real_of_int l),
      fzero = 0, fadd = (\<lambda>a b. a + b), fdiv = (\<lambda>a n. a / real n)\<rparr>"

definition toy_net :: "int \<Rightarrow> int \<Rightarrow> int" where
  "toy_net s t = s * t"

definition toy_loader :: "(int \<times> unit) loader" where
  "toy_loader = \<lparr>len = 2, batches = (\<lambda>e. [(1, ()), (int e, ())])\<rparr>"

definition empty_loader :: "(int \<times> unit) loader" where
  "empty_loader = \<lparr>len = 0, batches = (\<lambda>e. [])\<rparr>"

definition toy_apply :: "layer \<Rightarrow> int \<Rightarrow> int" where
  "toy_apply l t = (case l of Conv2d i out k \<Rightarrow> t - int k | ConvTranspose2d i out k \<Rightarrow> 2 * t + int k)"

definition toy_relu :: "int \<Rightarrow> int" where
  "toy_relu t = max 0 t"

definition toy_dumps :: "nat \<Rightarrow> nat list" where
  "toy_dumps m = replicate m 0"

definition toy_loads :: "nat list \<Rightarrow> nat" where
  "toy_loads contents = length contents"

definition toy_score :: "nat \<Rightarrow> nat \<Rightarrow> nat \<Rightarrow> nat" where
  "toy_score m X y = m * X + y"

section \<open>Properties\<close>

subsection \<open>The RAG notebook\<close>

lemma rag_stages_eval:
  "rag_stages rag_notebook =
     [LoadPDF, SplitText, EmbedChunk, InsertChunks, EmbedQuery, SimilaritySearch,
      ConcatenateText, FormatPrompt, CallLLM]"
  by code_simp

lemma rag_well_scoped: "well_scoped rag_notebook"
  by code_simp

text \<open>
  The check is not vacuous: the same cells in the opposite order fail it, the first
  statement then reading \<open>llm_client\<close> and \<open>prompt\<close> before anything has bound them.
\<close>

lemma rag_reversed_not_well_scoped: "\<not> well_scoped (rev rag_notebook)"
  by code_simp

text \<open>
  Claim C1. The RAG notebook performs its stages in this order: load the PDF, split the
  text into chunks, embed each chunk and insert the records into the vector store, embed
  the query, run the similarity search, concatenate the retrieved texts, format the
  prompt, and last call the hosted language model. No stage reads a value that a later
  statement produces: every name a statement reads is bound by a statement before it (or
  is a Python built-in).

  The cells run from top to bottom and the top level has no loop around several stages,
  so the order of the calls in the text is the order in which they first run.
\<close>

theorem rag_stage_order:
  "rag_stages rag_notebook =
     [LoadPDF, SplitText, EmbedChunk, InsertChunks, EmbedQuery, SimilaritySearch,
      ConcatenateText, FormatPrompt, CallLLM] \<and>
   well_scoped rag_notebook"
  by (intro conjI rag_stages_eval rag_well_scoped)

lemma rag_environ_statements:
  "filter (mentions_attribute ''environ'') (all_stmts rag_notebook) =
     [Assign [Subscript (Attribute (Name ''os'') ''environ'') (Const (CStr ''HF_TOKEN''))]
        (Const (CStr ''''))]"
  by code_simp

lemma rag_inference_client:
  "filter (\<lambda>c. callee c = ''InferenceClient'') (all_calls rag_notebook) =
     [Call (Name ''InferenceClient'') []
        [(''model'', Name ''repo_id''), (''timeout'', Const (CInt 120))]]"
  by code_simp

text \<open>
  Claim C2, as stated: the token the inference client sees is the one the environment
  held before the notebook started. It is not: started with a token in \<open>HF_TOKEN\<close>, the
  notebook overwrites it with the empty string in its first code cell.
\<close>

theorem client_token_counterexample:
  "client_token user_environ \<noteq> user_environ ''HF_TOKEN''"
  by (simp add: client_token_def rag_cell_03_run_def user_environ_def)

text \<open>
  Claim C2, amended. The notebook itself assigns \<open>HF_TOKEN\<close> in the process environment,
  to the empty string, and passes no token to the inference client (its only arguments
  are \<open>model\<close> and \<open>timeout\<close>). Whatever the environment held before, the value of
  \<open>HF_TOKEN\<close> the client finds there is the assigned one. That assignment is the only
  statement of the notebook that touches \<open>os.environ\<close>.
\<close>

theorem client_token_assigned:
  "client_token environ0 = Some '''' \<and>
   filter (mentions_attribute ''environ'') (all_stmts rag_notebook) =
     [Assign [Subscript (Attribute (Name ''os'') ''environ'') (Const (CStr ''HF_TOKEN''))]
        (Const (CStr ''''))] \<and>
   filter (\<lambda>c. callee c = ''InferenceClient'') (all_calls rag_notebook) =
     [Call (Name ''InferenceClient'') []
        [(''model'', Name ''repo_id''), (''timeout'', Const (CInt 120))]]"
proof (intro conjI rag_environ_statements rag_inference_client)
  show "client_token environ0 = Some ''''"
    by (simp add: client_token_def rag_cell_03_run_def)
qed

lemma embed_loop_ok:
  "list_all (\<lambda>line. encode [line] \<noteq> []) ls \<Longrightarrow>
   \<exists>new. embed_loop encode i ls data = Inr (data @ new) \<and>
     map entity_id new = map int [i..<i + length ls] \<and>
     map entity_text new = ls \<and>
     list_all2 (\<lambda>d line. emb_text encode line = Inr (entity_vector d)) new ls"
proof (induction ls arbitrary: i data)
  case Nil
  then show ?case by simp
next
  case (Cons line rest)
  from Cons.prems obtain v vs where enc: "encode [line] = v # vs"
    by (cases "encode [line]") auto
  let ?d = "\<lparr>entity_id = int i, entity_vector = v, entity_text = line\<rparr>"
  from Cons.prems have "list_all (\<lambda>line. encode [line] \<noteq> []) rest" by simp
  from Cons.IH [OF this, of "i + 1" "data @ [?d]"]
  obtain new where new:
    "embed_loop encode (i + 1) rest (data @ [?d]) = Inr ((data @ [?d]) @ new)"
    "map entity_id new = map int [i + 1..<i + 1 + length rest]"
    "map entity_text new = rest"
    "list_all2 (\<lambda>d line. emb_text encode line = Inr (entity_vector d)) new rest"
    by blast
  have up: "[i..<i + length (line # rest)] = i # [i + 1..<i + 1 + length rest]"
    using upt_conv_Cons [of i "i + Suc (length rest)"] by simp
  show ?case
  proof (intro exI conjI)
    show "embed_loop encode i (line # rest) data = Inr (data @ (?d # new))"
      using new(1) enc by (simp add: emb_text_def)
    show "map entity_id (?d # new) = map int [i..<i + length (line # rest)]"
      unfolding up using new(2) by simp
    show "map entity_text (?d # new) = line # rest"
      using new(3) by simp
    show "list_all2 (\<lambda>d line. emb_text encode line = Inr (entity_vector d)) (?d # new) (line # rest)"
      using new(4) enc by (simp add: emb_text_def)
  qed
qed

lemma distinct_map_int_upt: "distinct (map int [i..<j])"
  by (simp add: distinct_map inj_on_def)

lemma rag_milvus_calls:
  "map callee (calls_on ''milvus_client'' rag_notebook) =
     [''milvus_client.has_collection'', ''milvus_client.drop_collection'',
      ''milvus_client.create_collection'', ''milvus_client.insert'', ''milvus_client.search'']"
  by code_simp

lemma rag_insert_call:
  "filter (\<lambda>c. callee c = ''milvus_client.insert'') (all_calls rag_notebook) =
     [Call (Attribute (Name ''milvus_client'') ''insert'') []
        [(''collection_name'', Name ''collection_name''), (''data'', Name ''data'')]]"
  by code_simp

lemma rag_data_calls:
  "calls_on ''data'' rag_notebook =
     [Call (Attribute (Name ''data'') ''append'')
        [DictE
           [(Const (CStr ''id''), Name ''i''),
            (Const (CStr ''vector''), Call (Name ''emb_text'') [Name ''line''] []),
            (Const (CStr ''text''), Name ''line'')]]
        []]"
  by code_simp

text \<open>
  Claim C4. Every record handed to the vector store carries an integer identifier given
  when the records are built: the record at index \<open>i\<close> of the list has id \<open>i\<close>, so for
  \<open>n\<close> chunks the ids are 0 to \<open>n - 1\<close>, pairwise distinct, each record holding the text
  of its chunk and that text's embedding. (The embedding function must return a vector
  for each chunk; otherwise cell 23 stops with an error before inserting anything.)
  The notebook's calls on the vector store are, in order, \<open>has_collection\<close>,
  \<open>drop_collection\<close> (under the test), \<open>create_collection\<close>, one \<open>insert\<close> of that list,
  and \<open>search\<close>: the collection is dropped and created before the insert and only
  searched after it, and the list is touched by nothing but the \<open>append\<close> that builds it.
\<close>

theorem chunk_ids:
  assumes "list_all (\<lambda>line. encode [line] \<noteq> []) text_lines"
  shows "\<exists>data. rag_cell_23_data encode text_lines = Inr data \<and>
     map entity_id data = map int [0..<length text_lines] \<and>
     distinct (map entity_id data) \<and>
     map entity_text data = text_lines \<and>
     list_all2 (\<lambda>d line. emb_text encode line = Inr (entity_vector d)) data text_lines \<and>
     map callee (calls_on ''milvus_client'' rag_notebook) =
       [''milvus_client.has_collection'', ''milvus_client.drop_collection'',
        ''milvus_client.create_collection'', ''milvus_client.insert'', ''milvus_client.search''] \<and>
     filter (\<lambda>c. callee c = ''milvus_client.insert'') (all_calls rag_notebook) =
       [Call (Attribute (Name ''milvus_client'') ''insert'') []
          [(''collection_name'', Name ''collection_name''), (''data'', Name ''data'')]] \<and>
     calls_on ''data'' rag_notebook =
       [Call (Attribute (Name ''data'') ''append'')
          [DictE
             [(Const (CStr ''id''), Name ''i''),
              (Const (CStr ''vector''), Call (Name ''emb_text'') [Name ''line''] []),
              (Const (CStr ''text''), Name ''line'')]]
          []]"
proof -
  from embed_loop_ok [OF assms, of 0 "[]"]
  obtain data where data:
    "embed_loop encode 0 text_lines [] = Inr data"
    "map entity_id data = map int [0..<length text_lines]"
    "map entity_text data = text_lines"
    "list_all2 (\<lambda>d line. emb_text encode line = Inr (entity_vector d)) data text_lines"
    by auto
  have dist: "distinct (map entity_id data)"
    unfolding data(2) by (rule distinct_map_int_upt)
  show ?thesis
    unfolding rag_cell_23_data_def
  proof (intro exI conjI rag_milvus_calls rag_insert_call rag_data_calls)
    show "embed_loop encode 0 text_lines [] = Inr data" by (rule data(1))
    show "map entity_id data = map int [0..<length text_lines]" by (rule data(2))
    show "distinct (map entity_id data)" by (rule dist)
    show "map entity_text data = text_lines" by (rule data(3))
    show "list_all2 (\<lambda>d line. emb_text encode line = Inr (entity_vector d)) data text_lines"
      by (rule data(4))
  qed
qed

theorem chunk_ids_witness:
  "list_all (\<lambda>line. toy_encode [line] \<noteq> []) [''ab'', ''c'', ''def''] \<and>
   (\<exists>data. rag_cell_23_data toy_encode [''ab'', ''c'', ''def''] = Inr data \<and>
      map entity_id data = [0, 1, 2] \<and> distinct (map entity_id data) \<and>
      map entity_text data = [''ab'', ''c'', ''def''])"
proof -
  have h: "list_all (\<lambda>line. toy_encode [line] \<noteq> []) [''ab'', ''c'', ''def'']"
    by (simp add: toy_encode_def)
  have u: "map int [0..<length [''ab'', ''c'', ''def'']] = [0, 1, 2]"
    by (simp add: upt_rec)
  from chunk_ids [OF h] obtain data where
    "rag_cell_23_data toy_encode [''ab'', ''c'', ''def''] = Inr data"
    "map entity_id data = map int [0..<length [''ab'', ''c'', ''def'']]"
    "distinct (map entity_id data)"
    "map entity_text data = [''ab'', ''c'', ''def'']"
    by (elim exE conjE) (rule that; assumption)
  then show ?thesis
    unfolding u using h by (intro conjI exI)
qed

subsection \<open>Timeouts and failure handling, all three notebooks\<close>

lemma timeout_calls:
  "filter (passes_keyword ''timeout'')
     (all_calls rag_notebook @ all_calls autoencoder_notebook @ all_calls sklearn_notebook) =
     [Call (Name ''InferenceClient'') []
        [(''model'', Name ''repo_id''), (''timeout'', Const (CInt 120))]]"
  by code_simp

lemma rag_keyword_names:
  "keyword_names rag_notebook =
     [''chunk_size'', ''chunk_overlap'', ''normalize_embeddings'', ''uri'', ''collection_name'',
      ''dimension'', ''metric_type'', ''consistency_level'', ''desc'', ''data'', ''limit'',
      ''search_params'', ''output_fields'', ''indent'', ''model'', ''timeout'', ''context'',
      ''question'', ''max_new_tokens'']"
  by code_simp

lemma autoencoder_keyword_names:
  "keyword_names autoencoder_notebook =
     [''mean'', ''std'', ''root'', ''train'', ''download'', ''transform'', ''batch_size'',
      ''shuffle'', ''num_workers'', ''lr'', ''name'', ''figsize'']"
  by code_simp

lemma sklearn_keyword_names:
  "keyword_names sklearn_notebook =
     [''axis'', ''test_size'', ''X'', ''y'', ''n_estimators'', ''cv'', ''estimator'',
      ''param_grid'', ''verbose'']"
  by code_simp

lemma all_shell_scripts:
  "shell_scripts rag_notebook @ shell_scripts autoencoder_notebook @
   shell_scripts sklearn_notebook =
     [(''bash'',
       [''if'', ''['', ''!'', ''-f'', [CHR 0x22] @ ''The-AI-Act.pdf'' @ [CHR 0x22], ''];'', ''then'',
        ''wget'', ''-q'',
        ''https://artificialintelligenceact.eu/wp-content/uploads/2021/08/The-AI-Act.pdf'',
        ''fi''])]"
  by code_simp

lemma no_cancelling_calls:
  "cancelling_calls rag_notebook @ cancelling_calls autoencoder_notebook @
   cancelling_calls sklearn_notebook = []"
  by code_simp

text \<open>
  Claim C5. The notebooks' own code sets exactly one timeout: the fixed value 120, passed
  as the keyword \<open>timeout\<close> to the constructor of the hosted-inference client. No other
  call of the three notebooks passes a timeout (the keyword names of all their calls are
  listed in full), and no call cancels, interrupts or shuts down anything. The one cell
  that is not Python, the shell script that fetches the PDF, runs \<open>wget\<close> with the
  option \<open>-q\<close> and no other.
\<close>

theorem one_timeout:
  "filter (passes_keyword ''timeout'')
     (all_calls rag_notebook @ all_calls autoencoder_notebook @ all_calls sklearn_notebook) =
     [Call (Name ''InferenceClient'') []
        [(''model'', Name ''repo_id''), (''timeout'', Const (CInt 120))]] \<and>
   keyword_names rag_notebook =
     [''chunk_size'', ''chunk_overlap'', ''normalize_embeddings'', ''uri'', ''collection_name'',
      ''dimension'', ''metric_type'', ''consistency_level'', ''desc'', ''data'', ''limit'',
      ''search_params'', ''output_fields'', ''indent'', ''model'', ''timeout'', ''context'',
      ''question'', ''max_new_tokens''] \<and>
   keyword_names autoencoder_notebook =
     [''mean'', ''std'', ''root'', ''train'', ''download'', ''transform'', ''batch_size'',
      ''shuffle'', ''num_workers'', ''lr'', ''name'', ''figsize''] \<and>
   keyword_names sklearn_notebook =
     [''axis'', ''test_size'', ''X'', ''y'', ''n_estimators'', ''cv'', ''estimator'',
      ''param_grid'', ''verbose''] \<and>
   cancelling_calls rag_notebook @ cancelling_calls autoencoder_notebook @
   cancelling_calls sklearn_notebook = [] \<and>
   shell_scripts rag_notebook @ shell_scripts autoencoder_notebook @
   shell_scripts sklearn_notebook =
     [(''bash'',
       [''if'', ''['', ''!'', ''-f'', [CHR 0x22] @ ''The-AI-Act.pdf'' @ [CHR 0x22], ''];'', ''then'',
        ''wget'', ''-q'',
        ''https://artificialintelligenceact.eu/wp-content/uploads/2021/08/The-AI-Act.pdf'',
        ''fi''])]"
  by (intro conjI timeout_calls rag_keyword_names autoencoder_keyword_names
      sklearn_keyword_names no_cancelling_calls all_shell_scripts)

lemma rag_no_failure_handlers: "failure_handlers rag_notebook = []"
  by code_simp

lemma autoencoder_no_failure_handlers: "failure_handlers autoencoder_notebook = []"
  by code_simp

lemma sklearn_no_failure_handlers: "failure_handlers sklearn_notebook = []"
  by code_simp

lemma all_branch_tests:
  "branch_tests rag_notebook @ branch_tests autoencoder_notebook @ branch_tests sklearn_notebook =
     [Call (Attribute (Name ''milvus_client'') ''has_collection'') [Name ''collection_name''] [],
      UnaryOp UNot
        (Call (Attribute (Attribute (Name ''os'') ''path'') ''exists'') [Name ''image_dir''] []),
      Compare (BinOp (Name ''epoch'') Mod (Const (CInt 5))) Eq (Const (CInt 0)),
      Call (Attribute (Attribute (Name ''torch'') ''cuda'') ''is_available'') [] []]"
  by code_simp

lemma all_loop_iterables:
  "loop_iterables rag_notebook @ loop_iterables autoencoder_notebook @
   loop_iterables sklearn_notebook =
     [Call (Name ''enumerate'')
        [Call (Name ''tqdm'') [Name ''text_lines'']
           [(''desc'', Const (CStr ''Creating embeddings''))]]
        [],
      Call (Name ''range'') [Name ''NUM_EPOCHS''] [],
      Name ''trainloader'',
      Name ''testloader'',
      Call (Name ''range'') [Const (CInt 100), Const (CInt 200), Const (CInt 10)] [],
      Call (Name ''range'') [Const (CInt 100), Const (CInt 200), Const (CInt 10)] []]"
  by code_simp

text \<open>
  Claim C6. No code of the notebooks catches, transforms or retries on an exception.
  None of the three contains a \<open>try\<close>, a \<open>with\<close>, a \<open>raise\<close> or a \<open>while\<close>, in any cell
  or function body; these are the statements by which Python code stops or replaces an
  exception, and every other statement lets an exception raised inside it pass unchanged
  to the top level. There is no recovery branch: the
  only conditions any notebook branches on are whether the collection exists, whether
  the image directory exists, whether the epoch number is a multiple of five, and whether
  a GPU is available; none looks at a failure. There is no retry loop: the six loops
  each walk a fixed sequence (the chunk texts, the epoch numbers, the two data loaders,
  twice the numbers of trees to try). The one cell that is not Python is the shell
  script of the RAG notebook: it downloads the PDF when the file is absent, and does
  nothing about a download that fails.
\<close>

theorem no_exception_handling:
  "failure_handlers rag_notebook = [] \<and> failure_handlers autoencoder_notebook = [] \<and>
   failure_handlers sklearn_notebook = [] \<and>
   branch_tests rag_notebook @ branch_tests autoencoder_notebook @ branch_tests sklearn_notebook =
     [Call (Attribute (Name ''milvus_client'') ''has_collection'') [Name ''collection_name''] [],
      UnaryOp UNot
        (Call (Attribute (Attribute (Name ''os'') ''path'') ''exists'') [Name ''image_dir''] []),
      Compare (BinOp (Name ''epoch'') Mod (Const (CInt 5))) Eq (Const (CInt 0)),
      Call (Attribute (Attribute (Name ''torch'') ''cuda'') ''is_available'') [] []] \<and>
   loop_iterables rag_notebook @ loop_iterables autoencoder_notebook @
   loop_iterables sklearn_notebook =
     [Call (Name ''enumerate'')
        [Call (Name ''tqdm'') [Name ''text_lines'']
           [(''desc'', Const (CStr ''Creating embeddings''))]]
        [],
      Call (Name ''range'') [Name ''NUM_EPOCHS''] [],
      Name ''trainloader'',
      Name ''testloader'',
      Call (Name ''range'') [Const (CInt 100), Const (CInt 200), Const (CInt 10)] [],
      Call (Name ''range'') [Const (CInt 100), Const (CInt 200), Const (CInt 10)] []] \<and>
   shell_scripts rag_notebook @ shell_scripts autoencoder_notebook @
   shell_scripts sklearn_notebook =
     [(''bash'',
       [''if'', ''['', ''!'', ''-f'', [CHR 0x22] @ ''The-AI-Act.pdf'' @ [CHR 0x22], ''];'', ''then'',
        ''wget'', ''-q'',
        ''https://artificialintelligenceact.eu/wp-content/uploads/2021/08/The-AI-Act.pdf'',
        ''fi''])]"
  by (intro conjI rag_no_failure_handlers autoencoder_no_failure_handlers
      sklearn_no_failure_handlers all_branch_tests all_loop_iterables all_shell_scripts)

subsection \<open>The scikit-learn notebook\<close>

lemma sklearn_stages_eval:
  "sklearn_stages sklearn_notebook =
     [LoadData, SplitData, Instantiate, Fit, Predict, Score, Score,
      Instantiate, Fit, Score,
      Instantiate, Fit, Score,
      Instantiate, GridSearch, Fit, Fit, Score, PickleModel, Score]"
  by code_simp

lemma sklearn_first_seen:
  "first_seen (sklearn_stages sklearn_notebook) =
     [LoadData, SplitData, Instantiate, Fit, Predict, Score, GridSearch, PickleModel]"
  unfolding sklearn_stages_eval by (simp add: first_seen_def)

lemma sklearn_well_scoped: "well_scoped sklearn_notebook"
  by code_simp

lemma sklearn_first_fit:
  "first_call ''fit'' sklearn_notebook =
     Some (Call (Attribute (Name ''clf'') ''fit'') []
       [(''X'', Name ''X_train''), (''y'', Name ''y_train'')])"
  by code_simp

lemma sklearn_first_predict:
  "first_call ''predict'' sklearn_notebook =
     Some (Call (Attribute (Name ''clf'') ''predict'') [] [(''X'', Name ''X_test'')])"
  by code_simp

lemma sklearn_first_dump:
  "first_call ''dump'' sklearn_notebook =
     Some (Call (Attribute (Name ''pickle'') ''dump'')
       [Name ''grid'',
        Call (Name ''open'')
          [Const (CStr ''random_forest_model_1_grid.pkl''), Const (CStr ''wb'')] []]
       [])"
  by code_simp

text \<open>
  Claim C7. The scikit-learn notebook performs its stages in this order: load the table,
  split it into training and test sets, instantiate a classifier, fit it on the training
  split, predict on the test split, score it, run a grid search, and pickle the result
  (the grid-search object). Each stage first happens after all the stages before it in
  that list; fitting, scoring and instantiating happen again later, inside the two loops
  that try numbers of trees, for the grid search itself and after it, as the full
  sequence shows. Each stage consumes only what earlier statements produced: every name
  a statement reads is bound by a statement before it.
\<close>

theorem sklearn_stage_order:
  "first_seen (sklearn_stages sklearn_notebook) =
     [LoadData, SplitData, Instantiate, Fit, Predict, Score, GridSearch, PickleModel] \<and>
   sklearn_stages sklearn_notebook =
     [LoadData, SplitData, Instantiate, Fit, Predict, Score, Score,
      Instantiate, Fit, Score,
      Instantiate, Fit, Score,
      Instantiate, GridSearch, Fit, Fit, Score, PickleModel, Score] \<and>
   well_scoped sklearn_notebook \<and>
   first_call ''fit'' sklearn_notebook =
     Some (Call (Attribute (Name ''clf'') ''fit'') []
       [(''X'', Name ''X_train''), (''y'', Name ''y_train'')]) \<and>
   first_call ''predict'' sklearn_notebook =
     Some (Call (Attribute (Name ''clf'') ''predict'') [] [(''X'', Name ''X_test'')]) \<and>
   first_call ''dump'' sklearn_notebook =
     Some (Call (Attribute (Name ''pickle'') ''dump'')
       [Name ''grid'',
        Call (Name ''open'')
          [Const (CStr ''random_forest_model_1_grid.pkl''), Const (CStr ''wb'')] []]
       [])"
  by (intro conjI sklearn_first_seen sklearn_stages_eval sklearn_well_scoped
      sklearn_first_fit sklearn_first_predict sklearn_first_dump)

lemma sklearn_pickle_calls:
  "filter (\<lambda>c. callee c \<in> set [''pickle.dump'', ''pickle.load'', ''loaded_pickle_model.score''])
     (all_calls sklearn_notebook) =
     [Call (Attribute (Name ''pickle'') ''dump'')
        [Name ''grid'',
         Call (Name ''open'')
           [Const (CStr ''random_forest_model_1_grid.pkl''), Const (CStr ''wb'')] []]
        [],
      Call (Attribute (Name ''pickle'') ''load'')
        [Call (Name ''open'')
           [Const (CStr ''random_forest_model_1_grid.pkl''), Const (CStr ''rb'')] []]
        [],
      Call (Attribute (Name ''loaded_pickle_model'') ''score'')
        [Name ''X_test'', Name ''y_test''] []]"
  by code_simp

lemma pickle_cells_run:
  "loads (dumps grid) = grid \<Longrightarrow>
   sklearn_cell_45_run loads score X_test y_test (sklearn_cell_44_run dumps grid files) =
     Inr (score grid X_test y_test)"
  by (simp add: sklearn_cell_45_run_def sklearn_cell_44_run_def)

text \<open>
  Claim C8. The serialized model goes through the local disk and comes back: the notebook
  writes the grid-search object to the file \<open>random_forest_model_1_grid.pkl\<close> and then
  reads the same path; the score of the loaded object on the test split
  (\<open>X_test\<close>, \<open>y_test\<close>) is the score of the object that was written, on the same
  inputs. The one fact taken from the library is that unpickling what was pickled gives
  the object back; whatever the disk held before does not matter.
\<close>

theorem pickle_round_trip:
  assumes "loads (dumps grid) = grid"
  shows "sklearn_cell_45_run loads score X_test y_test (sklearn_cell_44_run dumps grid files) =
       Inr (score grid X_test y_test) \<and>
     filter (\<lambda>c. callee c \<in> set [''pickle.dump'', ''pickle.load'', ''loaded_pickle_model.score''])
       (all_calls sklearn_notebook) =
       [Call (Attribute (Name ''pickle'') ''dump'')
          [Name ''grid'',
           Call (Name ''open'')
             [Const (CStr ''random_forest_model_1_grid.pkl''), Const (CStr ''wb'')] []]
          [],
        Call (Attribute (Name ''pickle'') ''load'')
          [Call (Name ''open'')
             [Const (CStr ''random_forest_model_1_grid.pkl''), Const (CStr ''rb'')] []]
          [],
        Call (Attribute (Name ''loaded_pickle_model'') ''score'')
          [Name ''X_test'', Name ''y_test''] []]"
  by (intro conjI sklearn_pickle_calls
      pickle_cells_run [where loads = loads and dumps = dumps and grid = grid, OF assms])

theorem pickle_round_trip_witness:
  "toy_loads (toy_dumps (7::nat)) = 7 \<and>
   sklearn_cell_45_run toy_loads toy_score (2::nat) (3::nat)
     (sklearn_cell_44_run toy_dumps 7 Map.empty) = Inr (toy_score 7 2 3)"
proof -
  have h: "toy_loads (toy_dumps (7::nat)) = 7"
    by (simp add: toy_loads_def toy_dumps_def)
  note t = pickle_round_trip [where loads = toy_loads and dumps = toy_dumps and grid = 7
      and score = toy_score and X_test = 2 and y_test = 3 and files = Map.empty, OF h]
  from h conjunct1 [OF t] show ?thesis
    by (rule conjI)
qed

subsection \<open>The autoencoder notebook\<close>

lemma batch_loop_params:
  "params (fst (batch_loop L net ds (v, r))) = foldl (batch_params L net) (params v) ds"
  by (induction ds arbitrary: v r) (simp_all add: Let_def batch_params_def)

lemma batch_loop_sum:
  "snd (batch_loop L net ds (v, r)) = foldl (fadd L) r (batch_losses L net (params v) ds)"
  by (induction ds arbitrary: v r) (simp_all add: Let_def batch_params_def batch_loss_def)

lemma batch_loop_train_loss:
  "train_loss (fst (batch_loop L net ds (v, r))) = train_loss v"
  by (induction ds arbitrary: v r) (simp_all add: Let_def)

lemma batch_loop_printed:
  "epochs_printed (events (fst (batch_loop L net ds (v, r)))) = epochs_printed (events v)"
  by (induction ds arbitrary: v r) (simp_all add: Let_def epochs_printed_def)

lemma batch_loop_bound:
  "bound v \<or> ds \<noteq> [] \<Longrightarrow> bound (fst (batch_loop L net ds (v, r)))"
proof (induction ds arbitrary: v r)
  case Nil
  then show ?case by simp
next
  case (Cons d ds)
  show ?case
    by (simp add: Let_def) (rule Cons.IH, simp add: bound_def)
qed

text \<open>
  The outer loop over the epochs \<open>k, ..., k + m - 1\<close>, entered with the state the first
  \<open>k\<close> epochs leave: it needs a loader that reports a positive length, and, where
  \<open>img\<close> and \<open>outputs\<close> are not bound yet, a first epoch that has a batch.
\<close>

lemma epoch_loop_run:
  assumes pos: "0 < len ld"
  shows "params v = params_at_epoch L net ld s k \<Longrightarrow> bound v \<or> batches ld k \<noteq> [] \<or> m = 0 \<Longrightarrow>
    \<exists>v'. epoch_loop L net ld N [k..<k + m] v = Inr v' \<and>
      train_loss v' =
        train_loss v @
        map (\<lambda>e. fdiv L (float_sum L (epoch_losses L net ld s e)) (len ld)) [k..<k + m] \<and>
      epochs_printed (events v') = epochs_printed (events v) @ map Suc [k..<k + m]"
proof (induction m arbitrary: k v)
  case 0
  then show ?case by simp
next
  case (Suc m)
  obtain v1 rl where bl: "batch_loop L net (batches ld k) (v, fzero L) = (v1, rl)"
    by (cases "batch_loop L net (batches ld k) (v, fzero L)")
  have p1: "params v1 = params_at_epoch L net ld s (Suc k)"
    using batch_loop_params [of L net "batches ld k" v "fzero L"] bl Suc.prems(1) by simp
  have r1: "rl = float_sum L (epoch_losses L net ld s k)"
    using batch_loop_sum [of L net "batches ld k" v "fzero L"] bl Suc.prems(1)
    by (simp add: float_sum_def epoch_losses_def)
  have t1: "train_loss v1 = train_loss v"
    using batch_loop_train_loss [of L net "batches ld k" v "fzero L"] bl by simp
  have e1: "epochs_printed (events v1) = epochs_printed (events v)"
    using batch_loop_printed [of L net "batches ld k" v "fzero L"] bl by simp
  have b1: "bound v1"
    using batch_loop_bound [of v "batches ld k" L net "fzero L"] bl Suc.prems(2) by auto
  define loss where "loss = fdiv L rl (len ld)"
  define v2 where
    "v2 = v1\<lparr>train_loss := train_loss v1 @ [loss],
             events := events v1 @ [Printed (k + 1) N loss]\<rparr>"
  obtain im out where io: "img v2 = Some im" "outputs v2 = Some out"
    using b1 by (auto simp: bound_def v2_def)
  define v3 where
    "v3 = (if k mod 5 = 0
           then v2\<lparr>events := events v2 @
                  [save_decoded_image L (cpu_data L im) (''original'' @ str_nat k),
                   save_decoded_image L (cpu_data L out) (''decoded'' @ str_nat k)]\<rparr>
           else v2)"
  have step:
    "epoch_loop L net ld N (k # [Suc k..<Suc k + m]) v =
     epoch_loop L net ld N [Suc k..<Suc k + m] v3"
    using pos bl io by (simp add: Let_def v3_def v2_def loss_def)
  have p3: "params v3 = params_at_epoch L net ld s (Suc k)"
    using p1 by (simp add: v3_def v2_def)
  have b3: "bound v3"
    using b1 by (simp add: v3_def v2_def bound_def)
  have t3: "train_loss v3 =
      train_loss v @ [fdiv L (float_sum L (epoch_losses L net ld s k)) (len ld)]"
    using t1 r1 by (simp add: v3_def v2_def loss_def)
  have e3: "epochs_printed (events v3) = epochs_printed (events v) @ [Suc k]"
    using e1 by (simp add: v3_def v2_def epochs_printed_def save_decoded_image_def)
  from Suc.IH [of v3 "Suc k", OF p3] b3
  obtain v' where v': "epoch_loop L net ld N [Suc k..<Suc k + m] v3 = Inr v'"
    "train_loss v' =
       train_loss v3 @
       map (\<lambda>e. fdiv L (float_sum L (epoch_losses L net ld s e)) (len ld)) [Suc k..<Suc k + m]"
    "epochs_printed (events v') = epochs_printed (events v3) @ map Suc [Suc k..<Suc k + m]"
    by blast
  have up: "[k..<k + Suc m] = k # [Suc k..<Suc k + m]"
    by (simp add: upt_conv_Cons)
  show ?case
    unfolding up using step v' t3 e3 by simp
qed

lemma train_run:
  assumes "0 < len trainloader" and "batches trainloader 0 \<noteq> []"
  shows "\<exists>v. train L net trainloader N s = Inr v \<and>
     train_loss v =
       map (\<lambda>e. fdiv L (float_sum L (epoch_losses L net trainloader s e)) (len trainloader))
         [0..<nat N] \<and>
     epochs_printed (events v) = map Suc [0..<nat N]"
proof -
  let ?v0 = "\<lparr>params = s, img = None, outputs = None, train_loss = [], events = []\<rparr>"
  have "params ?v0 = params_at_epoch L net trainloader s 0" by simp
  from epoch_loop_run [OF assms(1) this, of "nat N" N] assms(2)
  show ?thesis
    by (simp add: train_def epochs_printed_def)
qed

lemma forward_unfolded:
  "forward apply_layer relu AutoEncoder_init x =
     relu (apply_layer (ConvTranspose2d 8 3 3)
       (relu (apply_layer (ConvTranspose2d 4 8 3)
         (relu (apply_layer (Conv2d 8 4 3)
           (relu (apply_layer (Conv2d 3 8 3) x)))))))"
  by (simp add: forward_def AutoEncoder_init_def)

text \<open>
  Claim C3, as stated: \<open>train\<close> iterates exactly \<open>NUM_EPOCHS\<close> times whatever the data.
  It does not on a loader without batches: the first epoch divides the running loss by
  \<open>len(trainloader) = 0\<close> and \<open>train\<close> ends there with \<open>ZeroDivisionError\<close>.
\<close>

theorem train_empty_loader_counterexample:
  "train toy_lib toy_net empty_loader NUM_EPOCHS 3 = Inl ZeroDivisionError"
  by (simp add: train_def NUM_EPOCHS_def empty_loader_def upt_rec)

text \<open>
  Claim C3, amended. The autoencoder is a fixed network of four layers: two convolutions
  (3 to 8 and 8 to 4 channels, kernel 3) followed by two transposed convolutions (4 to 8
  and 8 to 3 channels, kernel 3), applied in the order \<open>enc1\<close>, \<open>enc2\<close>, \<open>dec1\<close>,
  \<open>dec2\<close>, each followed by ReLU. \<open>NUM_EPOCHS\<close> is 10, and for every loader that has
  at least one batch \<open>train\<close> iterates exactly \<open>NUM_EPOCHS\<close> times, whatever the batches
  hold: it returns, having printed the epochs 1 to 10 and appended 10 losses.
\<close>

theorem autoencoder_fixed:
  assumes "0 < len trainloader" and "batches trainloader 0 \<noteq> []"
  shows "forward apply_layer relu AutoEncoder_init x =
       relu (apply_layer (ConvTranspose2d 8 3 3)
         (relu (apply_layer (ConvTranspose2d 4 8 3)
           (relu (apply_layer (Conv2d 8 4 3)
             (relu (apply_layer (Conv2d 3 8 3) x))))))) \<and>
     NUM_EPOCHS = 10 \<and>
     (\<exists>v. train L net trainloader NUM_EPOCHS s = Inr v \<and>
        epochs_printed (events v) = map Suc [0..<10] \<and>
        length (train_loss v) = 10)"
proof (intro conjI forward_unfolded)
  show n: "NUM_EPOCHS = 10" by (simp add: NUM_EPOCHS_def)
  from train_run [OF assms, of L net NUM_EPOCHS s]
  obtain v where v: "train L net trainloader NUM_EPOCHS s = Inr v"
    "train_loss v =
       map (\<lambda>e. fdiv L (float_sum L (epoch_losses L net trainloader s e)) (len trainloader))
         [0..<nat NUM_EPOCHS]"
    "epochs_printed (events v) = map Suc [0..<nat NUM_EPOCHS]"
    by blast
  have "length (train_loss v) = 10"
    unfolding v(2) n by simp
  moreover have "epochs_printed (events v) = map Suc [0..<10]"
    unfolding v(3) n by simp
  ultimately show "\<exists>v. train L net trainloader NUM_EPOCHS s = Inr v \<and>
        epochs_printed (events v) = map Suc [0..<10] \<and> length (train_loss v) = 10"
    using v(1) by blast
qed

theorem autoencoder_fixed_witness:
  "0 < len toy_loader \<and> batches toy_loader 0 \<noteq> [] \<and>
   forward toy_apply toy_relu AutoEncoder_init 5 = 9 \<and>
   (\<exists>v. train toy_lib toy_net toy_loader NUM_EPOCHS 3 = Inr v \<and>
      epochs_printed (events v) = [1, 2, 3, 4, 5, 6, 7, 8, 9, 10] \<and>
      length (train_loss v) = 10)"
proof -
  have h1: "0 < len toy_loader" and h2: "batches toy_loader 0 \<noteq> []"
    by (simp_all add: toy_loader_def)
  have u: "map Suc [0..<10] = [1, 2, 3, 4, 5, 6, 7, 8, 9, 10]"
    by (simp add: upt_rec)
  note t = autoencoder_fixed [OF h1 h2, of toy_apply toy_relu 5 toy_lib toy_net 3]
  have f: "forward toy_apply toy_relu AutoEncoder_init 5 = 9"
    unfolding conjunct1 [OF t] by (simp add: toy_apply_def toy_relu_def)
  from t have "\<exists>v. train toy_lib toy_net toy_loader NUM_EPOCHS 3 = Inr v \<and>
      epochs_printed (events v) = map Suc [0..<10] \<and> length (train_loss v) = 10"
    by (elim conjE)
  then show ?thesis
    unfolding u using h1 h2 f by (intro conjI)
qed

text \<open>
  Claim C9. For every call \<open>train(net, trainloader, NUM_EPOCHS)\<close> with
  \<open>NUM_EPOCHS \<ge> 0\<close> and a loader that is not empty (it reports a positive number of
  batches and yields a batch in its first pass), \<open>train\<close> returns a list of exactly
  \<open>NUM_EPOCHS\<close> entries, and the entry of each epoch is the sum of the loss values of
  that epoch's batches, added in the order of the batches starting from \<open>0.0\<close>, divided
  by the number of batches the loader reports.
\<close>

theorem train_losses:
  assumes "0 \<le> N" and "0 < len trainloader" and "batches trainloader 0 \<noteq> []"
  shows "\<exists>v. train L net trainloader N s = Inr v \<and>
     int (length (train_loss v)) = N \<and>
     train_loss v =
       map (\<lambda>e. fdiv L (float_sum L (epoch_losses L net trainloader s e)) (len trainloader))
         [0..<nat N]"
proof -
  from train_run [OF assms(2,3), of L net N s]
  obtain v where v: "train L net trainloader N s = Inr v"
    "train_loss v =
       map (\<lambda>e. fdiv L (float_sum L (epoch_losses L net trainloader s e)) (len trainloader))
         [0..<nat N]"
    by blast
  have "int (length (train_loss v)) = N"
    unfolding v(2) using assms(1) by simp
  with v show ?thesis by blast
qed

text \<open>With exact arithmetic the sum from left to right is the sum of the list.\<close>

lemma foldl_plus_sum_list: "foldl (+) a xs = a + sum_list xs" for a :: real
  by (induction xs arbitrary: a) (simp_all add: add.assoc)

lemma float_sum_exact:
  "fadd L = (+) \<Longrightarrow> fzero L = 0 \<Longrightarrow> float_sum L xs = sum_list xs" for xs :: "real list"
  by (simp add: float_sum_def foldl_plus_sum_list)

lemma toy_epoch_means:
  "map (\<lambda>e. fdiv toy_lib (float_sum toy_lib (epoch_losses toy_lib toy_net toy_loader 3 e))
          (len toy_loader)) [0..<nat 2] = [2, 41 / 2]"
  by (simp add: upt_rec epoch_losses_def float_sum_def batch_loss_def batch_params_def
      toy_lib_def toy_net_def toy_loader_def numeral_2_eq_2)

theorem train_losses_witness:
  "(0::int) \<le> 2 \<and> 0 < len toy_loader \<and> batches toy_loader 0 \<noteq> [] \<and>
   (\<exists>v. train toy_lib toy_net toy_loader 2 3 = Inr v \<and>
      int (length (train_loss v)) = 2 \<and> train_loss v = [2, 41 / 2])"
proof -
  have h0: "(0::int) \<le> 2" by simp
  have h1: "0 < len toy_loader" and h2: "batches toy_loader 0 \<noteq> []"
    by (simp_all add: toy_loader_def)
  from train_losses [OF h0 h1 h2, of toy_lib toy_net 3]
  have "\<exists>v. train toy_lib toy_net toy_loader 2 3 = Inr v \<and>
      int (length (train_loss v)) = 2 \<and> train_loss v = [2, 41 / 2]"
    unfolding toy_epoch_means .
  with h0 h1 h2 show ?thesis by (intro conjI)
qed

text \<open>
  Claim C10. \<open>test_image_reconstruction\<close> processes only the first batch of the test
  loader: the body of its loop ends in an unconditional \<open>break\<close>. On a loader with at
  least one batch it runs the network once, on the first batch, and writes one file,
  \<open>conv_cifar10_reconstruction.png\<close>, whatever batches follow; on an empty loader it
  runs nothing and writes nothing.
\<close>

theorem reconstruction_first_batch_only:
  "test_image_reconstruction L net (batch # rest) s =
     [Forward (to_device L (fst batch)),
      Saved ''conv_cifar10_reconstruction.png''
        (cpu_data L (view_images L (net s (to_device L (fst batch)))))] \<and>
   test_image_reconstruction L net [] s = []"
  by (simp add: test_image_reconstruction_def reconstruction_body_def Let_def)

end
